theory Spec2Isabelle
  imports Main "HOL-Library.Sublist"
begin

section \<open>JavaScript strings\<close>

text \<open>
  A JavaScript string is modelled as a HOL \<^typ>\<open>string\<close>: a list of code units below 256.
  \<open>String.prototype.trim\<close> removes the ECMAScript white space and line terminators from
  both ends; below 256 these are TAB, LF, VT, FF, CR, SPACE and NO-BREAK SPACE.
\<close>

definition isWhiteSpace :: "char \<Rightarrow> bool" where
  "isWhiteSpace c =
     (c = CHR 0x09 \<or> c = CHR 0x0A \<or> c = CHR 0x0B \<or> c = CHR 0x0C \<or> c = CHR 0x0D
      \<or> c = CHR 0x20 \<or> c = CHR 0xA0)"

definition trim :: "string \<Rightarrow> string" where
  "trim s = rev (dropWhile isWhiteSpace (rev (dropWhile isWhiteSpace s)))"

text \<open>\<open>s.includes(sub)\<close>: \<open>sub\<close> occurs in \<open>s\<close> at some position.\<close>

fun str_includes :: "string \<Rightarrow> string \<Rightarrow> bool" where
  "str_includes [] sub = (sub = [])"
| "str_includes (c # cs) sub = (prefix sub (c # cs) \<or> str_includes cs sub)"

text \<open>\<open>s.startsWith(p)\<close>.\<close>

definition startsWith :: "string \<Rightarrow> string \<Rightarrow> bool" where
  "startsWith s p = prefix p s"

text \<open>\<open>xs.join(sep)\<close> on an array of strings.\<close>

fun join :: "string \<Rightarrow> string list \<Rightarrow> string" where
  "join sep [] = []"
| "join sep [x] = x"
| "join sep (x # y # ys) = x @ sep @ join sep (y # ys)"

text \<open>The decimal rendering of a non-negative integer, as a template literal inserts it.\<close>

fun show_nat :: "nat \<Rightarrow> string" where
  "show_nat n =
     (if n < 10 then [''0123456789'' ! n]
      else show_nat (n div 10) @ [''0123456789'' ! (n mod 10)])"

declare show_nat.simps [simp del]

section \<open>The document object model\<close>

text \<open>
  Both extractors hand the HTML text to a DOM library (happy-dom, JSDOM) and then only
  query the resulting tree. The tree is modelled as a forest of element and text nodes;
  the parser itself is a parameter of the model (see \<open>platform\<close> below).
\<close>

datatype node =
    Element (tagName: string) (attributes: "(string \<times> string) list") (childNodes: "node list")
  | Text string

fun isElement :: "node \<Rightarrow> bool" where
  "isElement (Element t a cs) = True"
| "isElement (Text s) = False"

text \<open>\<open>el.getAttribute(name)\<close>: the raw attribute value, or null.\<close>

fun getAttribute :: "node \<Rightarrow> string \<Rightarrow> string option" where
  "getAttribute (Element t a cs) name = map_of a name"
| "getAttribute (Text s) name = None"

text \<open>\<open>el.textContent\<close>: the concatenation of all text below the node.\<close>

fun textContent :: "node \<Rightarrow> string" where
  "textContent (Text s) = s"
| "textContent (Element t a cs) = concat (map textContent cs)"

text \<open>
  The selectors of the source are lists of compound selectors made of a tag name, a
  class, the presence of an attribute or the value of an attribute.
\<close>

datatype simple_selector =
    Tag string
  | Class string
  | HasAttr string
  | AttrEq string string

type_synonym selector = "simple_selector list list"

definition isAsciiWhitespace :: "char \<Rightarrow> bool" where
  "isAsciiWhitespace c =
     (c = CHR 0x09 \<or> c = CHR 0x0A \<or> c = CHR 0x0C \<or> c = CHR 0x0D \<or> c = CHR 0x20)"

fun splitOn :: "(char \<Rightarrow> bool) \<Rightarrow> string \<Rightarrow> string list" where
  "splitOn p [] = [[]]"
| "splitOn p (c # cs) =
     (if p c then [] # splitOn p cs
      else (case splitOn p cs of [] \<Rightarrow> [[c]] | w # ws \<Rightarrow> (c # w) # ws))"

definition classList :: "node \<Rightarrow> string list" where
  "classList el =
     (case getAttribute el ''class'' of
        None \<Rightarrow> []
      | Some v \<Rightarrow> filter (\<lambda>w. w \<noteq> []) (splitOn isAsciiWhitespace v))"

text \<open>
  A class selector matches an element whose \<open>class\<close> attribute has the name among its
  tokens, compared exactly: the matching of a document in no-quirks mode, which a page
  with a doctype is.
\<close>

fun matchesSimple :: "node \<Rightarrow> simple_selector \<Rightarrow> bool" where
  "matchesSimple el (Tag t) = (isElement el \<and> tagName el = t)"
| "matchesSimple el (Class c) = (isElement el \<and> c \<in> set (classList el))"
| "matchesSimple el (HasAttr a) = (getAttribute el a \<noteq> None)"
| "matchesSimple el (AttrEq a v) = (getAttribute el a = Some v)"

definition matches :: "selector \<Rightarrow> node \<Rightarrow> bool" where
  "matches sel el = (isElement el \<and> list_ex (\<lambda>compound. list_all (matchesSimple el) compound) sel)"

text \<open>
  The elements of a forest in document order (preorder), each with the siblings that
  follow it, which is what \<open>nextElementSibling\<close> reads.
\<close>

type_synonym located = "node \<times> node list"

fun elementsIn :: "node list \<Rightarrow> located list" where
  "elementsIn [] = []"
| "elementsIn (Text s # rest) = elementsIn rest"
| "elementsIn (Element t a cs # rest) =
     (Element t a cs, rest) # elementsIn cs @ elementsIn rest"

text \<open>\<open>document.querySelectorAll(sel)\<close> on the parsed forest.\<close>

definition querySelectorAll :: "node list \<Rightarrow> selector \<Rightarrow> located list" where
  "querySelectorAll doc sel = filter (\<lambda>l. matches sel (fst l)) (elementsIn doc)"

text \<open>\<open>element.querySelector(sel)\<close>: the first matching descendant, or null.\<close>

definition querySelector :: "located \<Rightarrow> selector \<Rightarrow> located option" where
  "querySelector el sel =
     (case querySelectorAll (childNodes (fst el)) sel of [] \<Rightarrow> None | l # ls \<Rightarrow> Some l)"

definition nextElementSibling :: "located \<Rightarrow> located option" where
  "nextElementSibling el =
     (case dropWhile (\<lambda>n. \<not> isElement n) (snd el) of [] \<Rightarrow> None | n # ns \<Rightarrow> Some (n, ns))"

section \<open>The result extractors\<close>

record search_result =
  title :: string
  url :: string
  description :: "string option"

text \<open>
  \<open>extractGoogleResults\<close> of the happy-dom based module (source part 001): what one
  element of each strategy contributes to \<open>results\<close>. A description that is
  \<open>undefined\<close> is \<open>None\<close>.
\<close>

definition newsCandidate :: "located \<Rightarrow> search_result option" where
  "newsCandidate element =
     (case querySelector element [[AttrEq ''role'' ''heading'']] of
        None \<Rightarrow> None
      | Some titleEl \<Rightarrow>
          (case querySelector element [[Tag ''a'']] of
             None \<Rightarrow> None
           | Some linkEl \<Rightarrow>
               (let t = trim (textContent (fst titleEl));
                    d = map_option (\<lambda>s. trim (textContent (fst s))) (nextElementSibling titleEl)
                in case getAttribute (fst linkEl) ''href'' of
                     None \<Rightarrow> None
                   | Some u \<Rightarrow>
                       if t \<noteq> [] \<and> u \<noteq> []
                       then Some \<lparr>title = t, url = u, description = d\<rparr>
                       else None)))"

definition generalCandidate :: "located \<Rightarrow> search_result option" where
  "generalCandidate element =
     (case querySelector element [[Tag ''h3'']] of
        None \<Rightarrow> None
      | Some titleEl \<Rightarrow>
          (case querySelector element [[Tag ''a'']] of
             None \<Rightarrow> None
           | Some linkEl \<Rightarrow>
               (let t = trim (textContent (fst titleEl));
                    d = map_option (\<lambda>s. trim (textContent (fst s)))
                          (querySelector element [[Class ''VwiC3b'']])
                in case getAttribute (fst linkEl) ''href'' of
                     None \<Rightarrow> None
                   | Some u \<Rightarrow>
                       if t \<noteq> [] \<and> u \<noteq> []
                       then Some \<lparr>title = t, url = u, description = d\<rparr>
                       else None)))"

text \<open>
  The three strategies in order; each later one runs only while \<open>results\<close> is empty.
  No strategy bounds the number of elements it visits.
\<close>

definition collectResults_p1 :: "node list \<Rightarrow> search_result list" where
  "collectResults_p1 doc =
     (let r1 = List.map_filter newsCandidate
                 (querySelectorAll doc [[HasAttr ''data-news-cluster-id'']]);
          r2 = (if r1 = []
                then List.map_filter generalCandidate (querySelectorAll doc [[Class ''g'']])
                else r1);
          r3 = (if r2 = []
                then List.map_filter generalCandidate
                       (querySelectorAll doc [[Tag ''div'', Class ''tF2Cxc'']])
                else r2)
      in r3)"

text \<open>
  \<open>extractGoogleResults\<close> of the JSDOM based module (src/url-fetcher.ts): a missing
  element contributes the empty string, and each loop visits at most
  \<open>MAX_SEARCH_RESULTS\<close> elements.
\<close>

definition MAX_SEARCH_RESULTS :: nat where
  "MAX_SEARCH_RESULTS = 5"

definition candidate_uf :: "located \<Rightarrow> search_result option" where
  "candidate_uf div' =
     (let t = (case querySelector div' [[Tag ''h3'']] of
                 None \<Rightarrow> []
               | Some titleEl \<Rightarrow> trim (textContent (fst titleEl)));
          u = (case querySelector div' [[Tag ''a'']] of
                 None \<Rightarrow> Some []
               | Some linkEl \<Rightarrow> getAttribute (fst linkEl) ''href'');
          d = (case querySelector div' [[Class ''VwiC3b''], [Class ''s'']] of
                 None \<Rightarrow> []
               | Some descEl \<Rightarrow> trim (textContent (fst descEl)))
      in case u of
           None \<Rightarrow> None
         | Some u' \<Rightarrow>
             if t \<noteq> [] \<and> u' \<noteq> []
             then Some \<lparr>title = (if t \<noteq> [] then t else ''No title''),
                        url = u',
                        description = Some (if d \<noteq> [] then d else ''No description'')\<rparr>
             else None)"

definition collectResults_uf :: "node list \<Rightarrow> search_result list" where
  "collectResults_uf doc =
     (let resultDivs = querySelectorAll doc [[Tag ''div'', Class ''g'']];
          r1 = List.map_filter candidate_uf (take MAX_SEARCH_RESULTS resultDivs);
          altResultDivs = querySelectorAll doc [[Class ''tF2Cxc'']];
          r2 = (if r1 = []
                then List.map_filter candidate_uf (take MAX_SEARCH_RESULTS altResultDivs)
                else r1)
      in r2)"

section \<open>Thrown values, JSON values and the platform\<close>

text \<open>
  What a \<open>throw\<close> carries: an \<open>Error\<close> object with its name and message, or any
  other value.
\<close>

datatype thrown = JsError string string | NonError

fun instanceofError :: "thrown \<Rightarrow> bool" where
  "instanceofError (JsError n m) = True"
| "instanceofError NonError = False"

text \<open>\<open>error instanceof Error ? error.message : 'Unknown error'\<close>.\<close>

fun messageOf :: "thrown \<Rightarrow> string" where
  "messageOf (JsError n m) = m"
| "messageOf NonError = ''Unknown error''"

text \<open>\<open>new Error(message)\<close>.\<close>

definition newError :: "string \<Rightarrow> thrown" where
  "newError m = JsError ''Error'' m"

text \<open>
  JSON values. A number is held as the text that \<open>JSON.stringify\<close> emits for it; an
  object is the list of its properties in insertion order.
\<close>

datatype json =
    JNull
  | JBool bool
  | JNum string
  | JStr string
  | JArr "json list"
  | JObj "(string \<times> json) list"

definition hexDigit :: "nat \<Rightarrow> char" where
  "hexDigit k = ''0123456789abcdef'' ! k"

definition quoteChar :: "char \<Rightarrow> string" where
  \<open>quoteChar c =
     (if c = CHR 0x22 then [CHR 0x5C, CHR 0x22]
      else if c = CHR 0x5C then [CHR 0x5C, CHR 0x5C]
      else if c = CHR 0x08 then [CHR 0x5C, CHR ''b'']
      else if c = CHR 0x0C then [CHR 0x5C, CHR ''f'']
      else if c = CHR 0x0A then [CHR 0x5C, CHR ''n'']
      else if c = CHR 0x0D then [CHR 0x5C, CHR ''r'']
      else if c = CHR 0x09 then [CHR 0x5C, CHR ''t'']
      else if (of_char c :: nat) < 32
        then [CHR 0x5C, CHR ''u'', CHR ''0'', CHR ''0'',
              hexDigit (of_char c div 16), hexDigit (of_char c mod 16)]
      else [c])\<close>

definition quoteJSONString :: "string \<Rightarrow> string" where
  \<open>quoteJSONString s = [CHR 0x22] @ concat (map quoteChar s) @ [CHR 0x22]\<close>

text \<open>
  \<open>JSON.stringify(value, null, 2)\<close>, with the indentation reached so far as first
  argument.
\<close>

fun stringifyAt :: "string \<Rightarrow> json \<Rightarrow> string" where
  "stringifyAt ind JNull = ''null''"
| "stringifyAt ind (JBool b) = (if b then ''true'' else ''false'')"
| "stringifyAt ind (JNum n) = n"
| "stringifyAt ind (JStr s) = quoteJSONString s"
| "stringifyAt ind (JArr xs) =
     (if xs = [] then ''[]''
      else ''['' @ [CHR 0x0A]
           @ join ('','' @ [CHR 0x0A]) (map (\<lambda>x. (ind @ ''  '') @ stringifyAt (ind @ ''  '') x) xs)
           @ [CHR 0x0A] @ ind @ '']'')"
| "stringifyAt ind (JObj kvs) =
     (if kvs = [] then ''{}''
      else ''{'' @ [CHR 0x0A]
           @ join ('','' @ [CHR 0x0A])
               (map (\<lambda>kv. (ind @ ''  '') @ quoteJSONString (fst kv) @ '': ''
                            @ stringifyAt (ind @ ''  '') (snd kv)) kvs)
           @ [CHR 0x0A] @ ind @ ''}'')"

definition JSON_stringify2 :: "json \<Rightarrow> string" where
  "JSON_stringify2 v = stringifyAt [] v"

text \<open>
  What the code takes from its platform and libraries and no claim looks into: the HTML
  parser of the DOM library and \<open>JSON.parse\<close> (either may throw), the regular
  expression pipeline of \<open>htmlToMarkdown\<close>, the capture groups of the Markdown link
  pattern of \<open>extractSearchUrls\<close>, the message of a zod validation error, what
  \<open>writeFileSync(path, data)\<close> throws (\<open>None\<close> when the write succeeds), and the length
  of \<open>document.body.innerHTML\<close>. They are parameters: every theorem holds for each value
  of them.
\<close>

record platform =
  parseHTML :: "string \<Rightarrow> thrown + node list"
  JSON_parse :: "string \<Rightarrow> thrown + json"
  htmlToMarkdown :: "string \<Rightarrow> string"
  matchMarkdownLinks :: "string \<Rightarrow> string list"
  zodErrorMessage :: string
  writeFileSync :: "string \<Rightarrow> string \<Rightarrow> thrown option"
  innerHTMLLength :: "node list \<Rightarrow> nat"

section \<open>Rendering the results\<close>

datatype response_type = RText | RJson | RHtml | RMarkdown

text \<open>What \<open>fetchUrl\<close> and the happy-dom extractor return: \<open>string | object[]\<close>.\<close>

datatype fetched =
    FStr string
  | FResults "search_result list"
  | FContent string

definition result_json :: "search_result \<Rightarrow> json" where
  "result_json r =
     JObj ([(''title'', JStr (title r)), (''url'', JStr (url r))]
           @ (case description r of None \<Rightarrow> [] | Some d \<Rightarrow> [(''description'', JStr d)]))"

definition fetched_json :: "fetched \<Rightarrow> json" where
  "fetched_json f =
     (case f of
        FStr s \<Rightarrow> JStr s
      | FResults rs \<Rightarrow> JArr (map result_json rs)
      | FContent h \<Rightarrow> JArr [JObj [(''content'', JStr h)]])"

text \<open>\<open>r.description ? a : b\<close>: a description is truthy when present and non-empty.\<close>

definition whenDescription :: "search_result \<Rightarrow> (string \<Rightarrow> string) \<Rightarrow> string" where
  "whenDescription r f =
     (case description r of None \<Rightarrow> [] | Some d \<Rightarrow> if d \<noteq> [] then f d else [])"

definition render_p1 :: "response_type \<Rightarrow> search_result list \<Rightarrow> fetched" where
  \<open>render_p1 rt results =
     (case rt of
        RMarkdown \<Rightarrow>
          FStr (join [CHR 0x0A]
            (map (\<lambda>r. ''- ['' @ title r @ '']('' @ url r @ '')''
                       @ whenDescription r (\<lambda>d. [CHR 0x0A] @ ''  '' @ d)) results))
      | RHtml \<Rightarrow>
          FStr (join [CHR 0x0A]
            (map (\<lambda>r. ''<div class="result"><h3><a href="'' @ url r @ ''">'' @ title r
                       @ ''</a></h3>'' @ whenDescription r (\<lambda>d. ''<p>'' @ d @ ''</p>'')
                       @ ''</div>'') results))
      | RText \<Rightarrow>
          FStr (join [CHR 0x0A, CHR 0x0A]
            (map (\<lambda>r. title r @ [CHR 0x0A] @ url r
                       @ whenDescription r (\<lambda>d. [CHR 0x0A] @ d)) results))
      | RJson \<Rightarrow> FResults results)\<close>

definition extractGoogleResults_p1 ::
  "platform \<Rightarrow> string \<Rightarrow> response_type \<Rightarrow> thrown + fetched" where
  "extractGoogleResults_p1 P html rt =
     (case parseHTML P html of
        Inl e \<Rightarrow> Inl e
      | Inr doc \<Rightarrow> Inr (render_p1 rt (collectResults_p1 doc)))"

text \<open>
  The lines that the \<open>console.log\<close> calls of the happy-dom extractor write to the
  standard output, in order. Console output is held apart from the effect lists below.
  An element is reported as missing its title or URL when it has both a heading and a
  link and is not accepted.
\<close>

definition elementLog ::
  "string \<Rightarrow> selector \<Rightarrow> (located \<Rightarrow> search_result option) \<Rightarrow> nat \<times> located \<Rightarrow> string list" where
  "elementLog kind titleSel candidate ie =
     (case ie of (index, element) \<Rightarrow>
        [''Processing '' @ kind @ '' element '' @ show_nat (index + 1)]
        @ (if querySelector element titleSel \<noteq> None \<and> querySelector element [[Tag ''a'']] \<noteq> None
              \<and> candidate element = None
           then [''Missing title or URL for '' @ kind @ '' element '' @ show_nat (index + 1)]
           else []))"

definition console_extract :: "platform \<Rightarrow> node list \<Rightarrow> string list" where
  "console_extract P doc =
     (let newsElements = querySelectorAll doc [[HasAttr ''data-news-cluster-id'']];
          r1 = List.map_filter newsCandidate newsElements;
          generalElements = querySelectorAll doc [[Class ''g'']];
          r2 = (if r1 = [] then List.map_filter generalCandidate generalElements else r1);
          alternativeElements = querySelectorAll doc [[Tag ''div'', Class ''tF2Cxc'']];
          r3 = (if r2 = [] then List.map_filter generalCandidate alternativeElements else r2)
      in [''Document body length: '' @ show_nat (innerHTMLLength P doc)]
         @ [''Found '' @ show_nat (length newsElements) @ '' news elements'']
         @ concat (map (elementLog ''news'' [[AttrEq ''role'' ''heading'']] newsCandidate)
                     (enumerate 0 newsElements))
         @ (if r1 = []
            then [''Found '' @ show_nat (length generalElements) @ '' general result elements'']
                 @ concat (map (elementLog ''general'' [[Tag ''h3'']] generalCandidate)
                             (enumerate 0 generalElements))
            else [])
         @ (if r2 = []
            then [''No results found with primary selectors, trying alternatives...'']
                 @ concat (map (elementLog ''alternative'' [[Tag ''h3'']] generalCandidate)
                             (enumerate 0 alternativeElements))
            else [])
         @ [''Total results found: '' @ show_nat (length r3)])"

text \<open>The console output of one call of the happy-dom extractor on an HTML text.\<close>

definition console_extractGoogleResults :: "platform \<Rightarrow> string \<Rightarrow> string list" where
  "console_extractGoogleResults P html =
     (case parseHTML P html of Inl e \<Rightarrow> [] | Inr doc \<Rightarrow> console_extract P doc)"

text \<open>The description of a JSDOM result is always a string.\<close>

definition descriptionText :: "search_result \<Rightarrow> string" where
  "descriptionText r = (case description r of None \<Rightarrow> ''undefined'' | Some d \<Rightarrow> d)"

definition render_uf :: "response_type \<Rightarrow> search_result list \<Rightarrow> string" where
  \<open>render_uf rt results =
     (case rt of
        RJson \<Rightarrow> JSON_stringify2 (JArr (map result_json results))
      | RHtml \<Rightarrow>
          join [CHR 0x0A]
            (map (\<lambda>r. [CHR 0x0A] @ ''          <div class="search-result">'' @ [CHR 0x0A]
                       @ ''            <h3><a href="'' @ url r @ ''">'' @ title r
                       @ ''</a></h3>'' @ [CHR 0x0A]
                       @ ''            <div class="url">'' @ url r @ ''</div>'' @ [CHR 0x0A]
                       @ ''            <div class="description">'' @ descriptionText r
                       @ ''</div>'' @ [CHR 0x0A]
                       @ ''          </div>'' @ [CHR 0x0A]
                       @ ''        '') results)
      | RMarkdown \<Rightarrow>
          join [CHR 0x0A]
            (map (\<lambda>(index, r). [CHR 0x0A] @ show_nat (index + 1) @ ''. **'' @ title r @ ''**''
                       @ [CHR 0x0A] @ ''   - URL: '' @ url r
                       @ [CHR 0x0A] @ ''   - Description: '' @ descriptionText r
                       @ [CHR 0x0A]) (enumerate 0 results))
      | RText \<Rightarrow>
          join [CHR 0x0A]
            (map (\<lambda>(index, r). [CHR 0x0A] @ show_nat (index + 1) @ ''. '' @ title r
                       @ [CHR 0x0A] @ ''   URL: '' @ url r
                       @ [CHR 0x0A] @ ''   Description: '' @ descriptionText r
                       @ [CHR 0x0A]) (enumerate 0 results)))\<close>

text \<open>The JSDOM extractor wraps whatever its body throws.\<close>

definition extractGoogleResults_uf ::
  "platform \<Rightarrow> string \<Rightarrow> response_type \<Rightarrow> thrown + string" where
  "extractGoogleResults_uf P html rt =
     (case parseHTML P html of
        Inl e \<Rightarrow> Inl (newError (''Failed to parse Google search results: '' @ messageOf e))
      | Inr doc \<Rightarrow> Inr (render_uf rt (collectResults_uf doc)))"

section \<open>Responses and \<open>processResponse\<close>\<close>

definition MAX_RETRIES :: nat where
  "MAX_RETRIES = 3"

definition INITIAL_RETRY_DELAY :: nat where
  "INITIAL_RETRY_DELAY = 1000"

definition MAX_RESPONSE_SIZE :: int where
  "MAX_RESPONSE_SIZE = 10 * 1024 * 1024"

definition GOOGLE_SEARCH_URL :: string where
  "GOOGLE_SEARCH_URL = ''https://www.google.com/search''"

text \<open>
  A \<open>Response\<close> as the code reads it: the status line, the two headers it asks for
  (\<open>headers.get\<close> gives null for a missing header) and what \<open>response.text()\<close>
  resolves to or rejects with.
\<close>

record response =
  status :: nat
  statusText :: string
  contentTypeHeader :: "string option"
  contentLengthHeader :: "string option"
  body :: "thrown + string"

text \<open>\<open>response.ok\<close>: the status is in the range 200 to 299.\<close>

definition ok :: "response \<Rightarrow> bool" where
  "ok r = (200 \<le> status r \<and> status r \<le> 299)"

text \<open>A parsed \<open>URL\<close> object: its serialisation, origin and path.\<close>

record url_obj =
  href :: string
  origin :: string
  pathname :: string

text \<open>
  \<open>parseInt(s)\<close> without a radix: leading white space is skipped, a sign is read, a
  prefix \<open>0x\<close> selects base 16, and the longest run of digits is the value; no digit
  gives \<open>NaN\<close>, which is \<open>None\<close>. The value is the mathematical integer: the
  rounding to a double is monotone and leaves the comparison with the exactly
  representable \<open>MAX_RESPONSE_SIZE\<close> unchanged.
\<close>

definition digitValue :: "char \<Rightarrow> nat option" where
  "digitValue c =
     (let n = (of_char c :: nat) in
      if 48 \<le> n \<and> n \<le> 57 then Some (n - 48)
      else if 97 \<le> n \<and> n \<le> 102 then Some (n - 87)
      else if 65 \<le> n \<and> n \<le> 70 then Some (n - 55)
      else None)"

definition isRadixDigit :: "nat \<Rightarrow> char \<Rightarrow> bool" where
  "isRadixDigit R c = (case digitValue c of None \<Rightarrow> False | Some d \<Rightarrow> d < R)"

definition digitsValue :: "nat \<Rightarrow> string \<Rightarrow> nat" where
  "digitsValue R z = foldl (\<lambda>acc c. acc * R + the (digitValue c)) 0 z"

definition parseInt :: "string \<Rightarrow> int option" where
  "parseInt inputString =
     (let s0 = dropWhile isWhiteSpace inputString;
          negative = (s0 \<noteq> [] \<and> hd s0 = CHR ''-'');
          s1 = (if s0 \<noteq> [] \<and> (hd s0 = CHR ''-'' \<or> hd s0 = CHR ''+'') then tl s0 else s0);
          hex = (prefix ''0x'' s1 \<or> prefix ''0X'' s1);
          R = (if hex then 16 else 10);
          s2 = (if hex then drop 2 s1 else s1);
          z = takeWhile (isRadixDigit R) s2
      in if z = [] then None
         else Some (if negative then - int (digitsValue R z) else int (digitsValue R z)))"

text \<open>\<open>parseInt(response.headers.get('content-length') || '0')\<close>.\<close>

definition contentLength :: "response \<Rightarrow> int option" where
  "contentLength r =
     parseInt (case contentLengthHeader r of
                 None \<Rightarrow> ''0''
               | Some v \<Rightarrow> if v = [] then ''0'' else v)"

text \<open>\<open>contentLength > MAX_RESPONSE_SIZE\<close>; a comparison with \<open>NaN\<close> is false.\<close>

definition tooLarge :: "response \<Rightarrow> bool" where
  "tooLarge r = (case contentLength r of None \<Rightarrow> False | Some n \<Rightarrow> n > MAX_RESPONSE_SIZE)"

text \<open>\<open>response.headers.get('content-type') || ''\<close>.\<close>

definition contentType :: "response \<Rightarrow> string" where
  "contentType r = (case contentTypeHeader r of None \<Rightarrow> [] | Some v \<Rightarrow> v)"

text \<open>\<open>url.origin + url.pathname === GOOGLE_SEARCH_URL\<close>.\<close>

definition isGoogleSearch :: "url_obj \<Rightarrow> bool" where
  "isGoogleSearch u = (origin u @ pathname u = GOOGLE_SEARCH_URL)"

text \<open>
  The effects the model records, in the order the code performs them: a network
  request, a backoff sleep in milliseconds, the reading of a response body and a
  call of \<open>writeFileSync\<close> with its path and data. The abort timers are not recorded;
  the console output of the happy-dom module is given by the \<open>console\<close> functions
  beside each operation.
\<close>

datatype event =
    Fetch string
  | Sleep nat
  | ReadBody
  | WriteFile string string

text \<open>The \<open>switch\<close> of \<open>processResponse\<close>, the same in both modules.\<close>

definition formatByType :: "platform \<Rightarrow> string \<Rightarrow> response_type \<Rightarrow> string \<Rightarrow> thrown + string" where
  "formatByType P ct rt txt =
     (case rt of
        RJson \<Rightarrow>
          if \<not> str_includes ct ''application/json''
          then Inl (newError ''Response is not JSON'')
          else (case JSON_parse P txt of
                  Inl e \<Rightarrow> Inl e
                | Inr v \<Rightarrow> Inr (JSON_stringify2 v))
      | RHtml \<Rightarrow>
          if \<not> str_includes ct ''text/html''
          then Inl (newError ''Response is not HTML'')
          else Inr txt
      | RMarkdown \<Rightarrow>
          if str_includes ct ''text/html'' then Inr (htmlToMarkdown P txt)
          else if str_includes ct ''text/markdown'' then Inr txt
          else Inr (''```'' @ [CHR 0x0A] @ txt @ [CHR 0x0A] @ ''```'')
      | RText \<Rightarrow> Inr txt)"

text \<open>\<open>processResponse\<close> of src/url-fetcher.ts, with the effects it performs.\<close>

definition processResponse_uf ::
  "platform \<Rightarrow> response \<Rightarrow> response_type \<Rightarrow> url_obj \<Rightarrow> (thrown + string) \<times> event list" where
  "processResponse_uf P r rt u =
     (if tooLarge r then (Inl (newError ''Response too large''), [])
      else (case body r of
              Inl e \<Rightarrow> (Inl e, [ReadBody])
            | Inr txt \<Rightarrow>
                if isGoogleSearch u then (extractGoogleResults_uf P txt rt, [ReadBody])
                else (formatByType P (contentType r) rt txt, [ReadBody])))"

text \<open>
  \<open>processResponse\<close> of the happy-dom based module: the search branch asks the
  extractor for JSON or Markdown only and serialises an array.
\<close>

definition processResponse_p1 ::
  "platform \<Rightarrow> response \<Rightarrow> response_type \<Rightarrow> url_obj \<Rightarrow> (thrown + string) \<times> event list" where
  "processResponse_p1 P r rt u =
     (if tooLarge r then (Inl (newError ''Response too large''), [])
      else (case body r of
              Inl e \<Rightarrow> (Inl e, [ReadBody])
            | Inr txt \<Rightarrow>
                if isGoogleSearch u then
                  (let mappedType = (if rt = RJson \<or> rt = RMarkdown then rt else RJson)
                   in case extractGoogleResults_p1 P txt mappedType of
                        Inl e \<Rightarrow> (Inl e, [ReadBody])
                      | Inr (FStr s) \<Rightarrow> (Inr s, [ReadBody])
                      | Inr f \<Rightarrow> (Inr (JSON_stringify2 (fetched_json f)), [ReadBody]))
                else (formatByType P (contentType r) rt txt, [ReadBody])))"

text \<open>The console output of \<open>processResponse\<close> of the happy-dom module.\<close>

definition console_processResponse_p1 :: "platform \<Rightarrow> response \<Rightarrow> url_obj \<Rightarrow> string list" where
  "console_processResponse_p1 P r u =
     (if tooLarge r then []
      else (case body r of
              Inl e \<Rightarrow> []
            | Inr txt \<Rightarrow> if isGoogleSearch u then console_extractGoogleResults P txt else []))"

section \<open>The \<open>fetch_url\<close> handler\<close>

datatype fetch_outcome = Responded response | Threw thrown

record fetch_params =
  p_url :: url_obj
  p_responseType :: response_type
  p_timeout :: nat

record fetch_metadata =
  m_url :: string
  m_contentType :: "string option"
  m_contentLength :: "string option"
  m_isGoogleSearch :: bool
  m_responseType :: response_type

text \<open>
  What a tool handler returns: a text payload with its MIME type and metadata, or a
  message with \<open>isError: true\<close>.
\<close>

datatype 'm tool_result = ToolOk string string 'm | ToolError string


definition mimeTypeOf :: "response_type \<Rightarrow> string" where
  "mimeTypeOf rt =
     (if rt = RJson then ''application/json''
      else if rt = RMarkdown then ''text/markdown''
      else if rt = RHtml then ''text/html''
      else ''text/plain'')"

definition getRetryDelay :: "nat \<Rightarrow> nat" where
  "getRetryDelay attempt = INITIAL_RETRY_DELAY * 2 ^ attempt"

text \<open>How one iteration of the loop ends: with the handler's result, or in the next iteration.\<close>

datatype 'r step = Return 'r | Continue

text \<open>The \<open>catch\<close> block of the loop body.\<close>

definition onCatch :: "fetch_params \<Rightarrow> nat \<Rightarrow> thrown \<Rightarrow> fetch_metadata tool_result step \<times> event list" where
  "onCatch p attempt e =
     (if instanceofError e \<and> (case e of JsError n m \<Rightarrow> n = ''AbortError'' | NonError \<Rightarrow> False)
      then (Return (ToolError (''Request timed out after '' @ show_nat (p_timeout p) @ ''ms'')), [])
      else if attempt = MAX_RETRIES - 1
      then (Return (ToolError (''Failed to fetch URL: '' @ messageOf e)), [])
      else (Continue, [Sleep (getRetryDelay attempt)]))"

text \<open>
  The loop body. \<open>outcome\<close> is what \<open>fetch\<close> resolves to or rejects with in this
  attempt (an elapsed timeout rejects with an \<open>AbortError\<close>); \<open>proc\<close> is the module's
  \<open>processResponse\<close>.
\<close>

definition attemptStep ::
  "(response \<Rightarrow> response_type \<Rightarrow> url_obj \<Rightarrow> (thrown + string) \<times> event list) \<Rightarrow>
   fetch_outcome \<Rightarrow> fetch_params \<Rightarrow> nat \<Rightarrow> fetch_metadata tool_result step \<times> event list" where
  "attemptStep proc outcome p attempt =
     (case outcome of
        Threw e \<Rightarrow>
          (let (s, ev) = onCatch p attempt e in (s, Fetch (href (p_url p)) # ev))
      | Responded r \<Rightarrow>
          if \<not> ok r then
            (if status r = 429 then
               (if attempt = MAX_RETRIES - 1
                then (Return (ToolError ''Rate limit exceeded. Please try again later.''),
                      [Fetch (href (p_url p))])
                else (Continue, [Fetch (href (p_url p)), Sleep (getRetryDelay attempt)]))
             else (Return (ToolError (''HTTP '' @ show_nat (status r) @ '': '' @ statusText r)),
                   [Fetch (href (p_url p))]))
          else
            (case proc r (p_responseType p) (p_url p) of
               (Inr processedContent, ev) \<Rightarrow>
                 (Return (ToolOk processedContent (mimeTypeOf (p_responseType p))
                    \<lparr>m_url = href (p_url p),
                     m_contentType = contentTypeHeader r,
                     m_contentLength = contentLengthHeader r,
                     m_isGoogleSearch = isGoogleSearch (p_url p),
                     m_responseType = p_responseType p\<rparr>),
                  Fetch (href (p_url p)) # ev)
             | (Inl e, ev) \<Rightarrow>
                 (let (s, ev') = onCatch p attempt e
                  in (s, Fetch (href (p_url p)) # ev @ ev'))))"

text \<open>
  The \<open>for\<close> loop from a given attempt on; \<open>net attempt\<close> is the outcome of the
  request of that attempt.
\<close>

function fetch_url_loop ::
  "(response \<Rightarrow> response_type \<Rightarrow> url_obj \<Rightarrow> (thrown + string) \<times> event list) \<Rightarrow>
   (nat \<Rightarrow> fetch_outcome) \<Rightarrow> fetch_params \<Rightarrow> nat \<Rightarrow> fetch_metadata tool_result \<times> event list" where
  "fetch_url_loop proc net p attempt =
     (if attempt < MAX_RETRIES then
        (case attemptStep proc (net attempt) p attempt of
           (Return res, ev) \<Rightarrow> (res, ev)
         | (Continue, ev) \<Rightarrow>
             (case fetch_url_loop proc net p (attempt + 1) of (res, ev') \<Rightarrow> (res, ev @ ev')))
      else (ToolError ''Failed to fetch URL after all retry attempts'', []))"
  by pat_completeness auto
termination
  by (relation "measure (\<lambda>(proc, net, p, attempt). MAX_RETRIES - attempt)") auto

declare fetch_url_loop.simps [simp del]

definition fetch_url_uf ::
  "platform \<Rightarrow> (nat \<Rightarrow> fetch_outcome) \<Rightarrow> fetch_params \<Rightarrow> fetch_metadata tool_result \<times> event list" where
  "fetch_url_uf P net p = fetch_url_loop (processResponse_uf P) net p 0"

definition fetch_url_p1 ::
  "platform \<Rightarrow> (nat \<Rightarrow> fetch_outcome) \<Rightarrow> fetch_params \<Rightarrow> fetch_metadata tool_result \<times> event list" where
  "fetch_url_p1 P net p = fetch_url_loop (processResponse_p1 P) net p 0"

text \<open>
  The console output of the happy-dom handler: that of the processing of each 2xx
  response, over the attempts the loop makes.
\<close>

fun console_from :: "platform \<Rightarrow> (nat \<Rightarrow> fetch_outcome) \<Rightarrow> fetch_params \<Rightarrow> nat \<Rightarrow> nat \<Rightarrow> string list" where
  "console_from P net p attempt 0 = []"
| "console_from P net p attempt (Suc remaining) =
     (case net attempt of
        Threw e \<Rightarrow> []
      | Responded r \<Rightarrow> if ok r then console_processResponse_p1 P r (p_url p) else [])
     @ (case fst (attemptStep (processResponse_p1 P) (net attempt) p attempt) of
          Return res \<Rightarrow> []
        | Continue \<Rightarrow> console_from P net p (attempt + 1) remaining)"

definition console_fetch_url_p1 :: "platform \<Rightarrow> (nat \<Rightarrow> fetch_outcome) \<Rightarrow> fetch_params \<Rightarrow> string list" where
  "console_fetch_url_p1 P net p = console_from P net p 0 MAX_RETRIES"

section \<open>The internal fetch functions\<close>

text \<open>
  The \<open>try\<close> block of \<open>fetchUrl\<close>: one request with a five second abort timer,
  the body read, the copy of the body written to \<open>fetchedPage.html\<close> (a failed write
  throws), then the search branch on a prefix test of the URL string.
\<close>

definition fetchUrl_try ::
  "platform \<Rightarrow> fetch_outcome \<Rightarrow> string \<Rightarrow> response_type \<Rightarrow> (thrown + fetched) \<times> event list" where
  "fetchUrl_try P outcome u rt =
     (case outcome of
        Threw e \<Rightarrow> (Inl e, [Fetch u])
      | Responded r \<Rightarrow>
          if \<not> ok r
          then (Inl (newError (''HTTP error! status: '' @ show_nat (status r))), [Fetch u])
          else (case body r of
                  Inl e \<Rightarrow> (Inl e, [Fetch u, ReadBody])
                | Inr html \<Rightarrow>
                    ((case writeFileSync P ''fetchedPage.html'' html of
                        Some e \<Rightarrow> Inl e
                      | None \<Rightarrow>
                          if startsWith u GOOGLE_SEARCH_URL
                          then extractGoogleResults_p1 P html rt
                          else Inr (case rt of
                                      RMarkdown \<Rightarrow> FStr (htmlToMarkdown P html)
                                    | RHtml \<Rightarrow> FStr html
                                    | RText \<Rightarrow> FStr html
                                    | RJson \<Rightarrow> FContent html)),
                     [Fetch u, ReadBody, WriteFile ''fetchedPage.html'' html])))"

text \<open>The \<open>catch\<close> block shared by \<open>fetchUrl\<close> and \<open>fetchUrlWithParams\<close>.\<close>

definition rethrow :: "thrown \<Rightarrow> thrown" where
  "rethrow e =
     (if instanceofError e then newError (''Failed to fetch URL: '' @ messageOf e) else e)"

definition fetchUrl ::
  "platform \<Rightarrow> fetch_outcome \<Rightarrow> string \<Rightarrow> response_type \<Rightarrow> (thrown + fetched) \<times> event list" where
  "fetchUrl P outcome u rt =
     (case fetchUrl_try P outcome u rt of
        (Inl e, ev) \<Rightarrow> (Inl (rethrow e), ev)
      | (Inr v, ev) \<Rightarrow> (Inr v, ev))"

record fetchUrl_params =
  fp_url :: url_obj
  fp_responseType :: "response_type option"
  fp_timeout :: "nat option"

text \<open>
  \<open>fetchUrlWithParams\<close>: the zod schema admits \<open>json\<close> and \<open>markdown\<close> (default
  \<open>json\<close>) and a timeout between 1000 and 30000 (default 5000); a rejected parse
  throws before any request.
\<close>

definition validParams :: "fetchUrl_params \<Rightarrow> bool" where
  "validParams fp =
     ((case fp_responseType fp of
         None \<Rightarrow> True
       | Some rt \<Rightarrow> rt = RJson \<or> rt = RMarkdown)
      \<and> (case fp_timeout fp of
            None \<Rightarrow> True
          | Some t \<Rightarrow> 1000 \<le> t \<and> t \<le> 30000))"

definition fetchUrlWithParams ::
  "platform \<Rightarrow> fetch_outcome \<Rightarrow> fetchUrl_params \<Rightarrow> (thrown + fetched) \<times> event list" where
  "fetchUrlWithParams P outcome fp =
     (if \<not> validParams fp then (Inl (JsError ''ZodError'' (zodErrorMessage P)), [])
      else
        (let rt = (case fp_responseType fp of None \<Rightarrow> RJson | Some t \<Rightarrow> t);
             u = fp_url fp
         in case outcome of
              Threw e \<Rightarrow> (Inl (rethrow e), [Fetch (href u)])
            | Responded r \<Rightarrow>
                if \<not> ok r
                then (Inl (rethrow (newError (''HTTP error! status: '' @ show_nat (status r)))),
                      [Fetch (href u)])
                else (case body r of
                        Inl e \<Rightarrow> (Inl (rethrow e), [Fetch (href u), ReadBody])
                      | Inr html \<Rightarrow>
                          (if isGoogleSearch u
                           then (case extractGoogleResults_p1 P html rt of
                                   Inl e \<Rightarrow> Inl (rethrow e)
                                 | Inr v \<Rightarrow> Inr v)
                           else Inr (if rt = RMarkdown then FStr html else FContent html),
                           [Fetch (href u), ReadBody]))))"

text \<open>The console output of \<open>fetchUrl\<close> and of \<open>fetchUrlWithParams\<close>.\<close>

definition console_fetchUrl :: "platform \<Rightarrow> fetch_outcome \<Rightarrow> string \<Rightarrow> string list" where
  "console_fetchUrl P outcome u =
     (case outcome of
        Threw e \<Rightarrow> []
      | Responded r \<Rightarrow>
          if \<not> ok r then []
          else (case body r of
                  Inl e \<Rightarrow> []
                | Inr html \<Rightarrow>
                    (case writeFileSync P ''fetchedPage.html'' html of
                       Some e \<Rightarrow> []
                     | None \<Rightarrow>
                         [''Saved fetched HTML ('' @ show_nat (length html)
                            @ '' bytes) to fetchedPage.html'']
                         @ (if startsWith u GOOGLE_SEARCH_URL
                            then console_extractGoogleResults P html else []))))"

definition console_fetchUrlWithParams :: "platform \<Rightarrow> fetch_outcome \<Rightarrow> fetchUrl_params \<Rightarrow> string list" where
  "console_fetchUrlWithParams P outcome fp =
     (if \<not> validParams fp then []
      else (case outcome of
              Threw e \<Rightarrow> []
            | Responded r \<Rightarrow>
                if \<not> ok r then []
                else (case body r of
                        Inl e \<Rightarrow> []
                      | Inr html \<Rightarrow>
                          if isGoogleSearch (fp_url fp)
                          then console_extractGoogleResults P html else [])))"

section \<open>The deep \<open>google_search\<close> handler (source part 000)\<close>

datatype topic = Web | News


text \<open>
  \<open>URLSearchParams.toString()\<close>: letters, digits and \<open>*-._\<close> stay, a space becomes
  \<open>+\<close>, any other code unit is percent-encoded from its UTF-8 bytes.
\<close>

definition upperHex :: "nat \<Rightarrow> char" where
  "upperHex k = ''0123456789ABCDEF'' ! k"

definition percentByte :: "nat \<Rightarrow> string" where
  "percentByte b = [CHR ''%'', upperHex (b div 16), upperHex (b mod 16)]"

definition formEncodeChar :: "char \<Rightarrow> string" where
  "formEncodeChar c =
     (let n = (of_char c :: nat) in
      if (48 \<le> n \<and> n \<le> 57) \<or> (65 \<le> n \<and> n \<le> 90) \<or> (97 \<le> n \<and> n \<le> 122)
         \<or> n = 42 \<or> n = 45 \<or> n = 46 \<or> n = 95 then [c]
      else if n = 32 then ''+''
      else if n < 128 then percentByte n
      else percentByte (192 + n div 64) @ percentByte (128 + n mod 64))"

definition formEncode :: "string \<Rightarrow> string" where
  "formEncode s = concat (map formEncodeChar s)"

definition buildGoogleSearchUrl :: "string \<Rightarrow> nat \<Rightarrow> topic \<Rightarrow> string" where
  "buildGoogleSearchUrl query maxResults tp =
     ''https://www.google.com/search?'' @ ''q='' @ formEncode query
       @ ''&num='' @ formEncode (show_nat (if maxResults = 0 then 10 else maxResults))
       @ (if tp = News then ''&tbm=nws'' else ''&udm=14'')"












section \<open>Concrete inputs\<close>

text \<open>
  Documents, responses and request outcomes on which the theorems below are evaluated.
  A document is the tree a DOM library builds: \<open>html\<close> with \<open>head\<close> and \<open>body\<close>.
\<close>

definition page :: "node list \<Rightarrow> node list" where
  "page content = [Element ''html'' [] [Element ''head'' [] [], Element ''body'' [] content]]"

text \<open>
  One organic result block with the given heading text, link target and snippet, as a
  tree and as the HTML text it is parsed from.
\<close>

definition resultBlock :: "string \<times> string \<times> string \<Rightarrow> node" where
  "resultBlock b =
     (case b of (t, u, d) \<Rightarrow>
        Element ''div'' [(''class'', ''g'')]
          [Element ''a'' [(''href'', u)] [Element ''h3'' [] [Text t]],
           Element ''div'' [(''class'', ''VwiC3b'')] [Text d]])"

definition blockHtml :: "string \<times> string \<times> string \<Rightarrow> string" where
  \<open>blockHtml b =
     (case b of (t, u, d) \<Rightarrow>
        ''<div class="g"><a href="'' @ u @ ''"><h3>'' @ t @ ''</h3></a><div class="VwiC3b">''
          @ d @ ''</div></div>'')\<close>

definition blocks_one :: "(string \<times> string \<times> string) list" where
  "blocks_one = [(''  Isabelle  '', ''https://isabelle.in.tum.de/'', ''A proof assistant'')]"

text \<open>A result block whose link is \<open><a href=" ">\<close>.\<close>

definition blocks_blank_href :: "(string \<times> string \<times> string) list" where
  "blocks_blank_href = [(''Title'', '' '', ''Snippet'')]"

definition blocks_six :: "(string \<times> string \<times> string) list" where
  "blocks_six =
     [(''One'', ''https://example.com/1'', ''first''),
      (''Two'', ''https://example.com/2'', ''second''),
      (''Three'', ''https://example.com/3'', ''third''),
      (''Four'', ''https://example.com/4'', ''fourth''),
      (''Five'', ''https://example.com/5'', ''fifth''),
      (''Six'', ''https://example.com/6'', ''sixth'')]"

definition blocks_three :: "(string \<times> string \<times> string) list" where
  "blocks_three =
     [(''One'', ''https://example.com/1'', ''first''),
      (''Two'', ''https://example.com/2'', ''second''),
      (''Three'', ''https://example.com/3'', ''third'')]"

definition doc_of :: "(string \<times> string \<times> string) list \<Rightarrow> node list" where
  "doc_of bs = page (map resultBlock bs)"

definition html_of :: "(string \<times> string \<times> string) list \<Rightarrow> string" where
  "html_of bs = concat (map blockHtml bs)"

definition html_plain :: string where
  "html_plain = ''<p>How Search works</p>''"

definition doc_plain :: "node list" where
  "doc_plain = page [Element ''p'' [] [Text ''How Search works'']]"

definition json_text :: string where
  \<open>json_text = ''{"a":[1,true]}''\<close>

definition json_value :: json where
  "json_value = JObj [(''a'', JArr [JNum ''1'', JBool True])]"

text \<open>
  A platform that parses the texts above as shown, any other HTML text to an empty
  page, rejects any other JSON text and writes every file.
\<close>

definition platform_ex :: platform where
  "platform_ex =
     \<lparr>parseHTML = (\<lambda>s. if s = html_plain then Inr doc_plain
                        else if s = html_of blocks_one then Inr (doc_of blocks_one)
                        else if s = html_of blocks_blank_href then Inr (doc_of blocks_blank_href)
                        else if s = html_of blocks_three then Inr (doc_of blocks_three)
                        else if s = html_of blocks_six then Inr (doc_of blocks_six)
                        else Inr (page [])),
      JSON_parse = (\<lambda>s. if s = json_text then Inr json_value
                         else Inl (JsError ''SyntaxError'' ''Unexpected token'')),
      htmlToMarkdown = (\<lambda>s. s),
      matchMarkdownLinks = (\<lambda>s. []),
      zodErrorMessage = ''Invalid input'',
      writeFileSync = (\<lambda>path data. None),
      innerHTMLLength = (\<lambda>doc. if doc = doc_plain then length html_plain
                              else if doc = doc_of blocks_one then length (html_of blocks_one)
                              else if doc = doc_of blocks_blank_href
                                then length (html_of blocks_blank_href)
                              else if doc = doc_of blocks_three then length (html_of blocks_three)
                              else if doc = doc_of blocks_six then length (html_of blocks_six)
                              else 0)\<rparr>"

definition resp :: "nat \<Rightarrow> string \<Rightarrow> string option \<Rightarrow> string option \<Rightarrow> string \<Rightarrow> response" where
  "resp st reason ct cl b =
     \<lparr>status = st, statusText = reason, contentTypeHeader = ct, contentLengthHeader = cl,
      body = Inr b\<rparr>"

definition r429 :: response where
  "r429 = resp 429 ''Too Many Requests'' None None []"

definition r404 :: response where
  "r404 = resp 404 ''Not Found'' (Some ''text/html'') None ''gone''"

definition r200_plain :: response where
  "r200_plain = resp 200 ''OK'' (Some ''text/plain'') (Some ''5'') ''hello''"

definition r200_json :: response where
  "r200_json = resp 200 ''OK'' (Some ''application/json; charset=utf-8'') None json_text"

definition r200_html :: response where
  "r200_html = resp 200 ''OK'' (Some ''text/html; charset=UTF-8'') None html_plain"

definition r200_big :: response where
  "r200_big = resp 200 ''OK'' (Some ''text/plain'') (Some ''10485761'') ''hello''"

definition url_example :: url_obj where
  "url_example =
     \<lparr>href = ''https://example.com/page'', origin = ''https://example.com'', pathname = ''/page''\<rparr>"

definition url_google :: url_obj where
  "url_google =
     \<lparr>href = ''https://www.google.com/search?q=isabelle'', origin = ''https://www.google.com'',
      pathname = ''/search''\<rparr>"

text \<open>A page of the search site that is not the search endpoint.\<close>

definition url_howsearchworks :: url_obj where
  "url_howsearchworks =
     \<lparr>href = ''https://www.google.com/search/howsearchworks/'',
      origin = ''https://www.google.com'', pathname = ''/search/howsearchworks/''\<rparr>"

definition params_ex :: "url_obj \<Rightarrow> response_type \<Rightarrow> fetch_params" where
  "params_ex u rt = \<lparr>p_url = u, p_responseType = rt, p_timeout = 30000\<rparr>"

text \<open>Status 429 on the first two attempts, then the given response.\<close>

definition net_429_429 :: "response \<Rightarrow> nat \<Rightarrow> fetch_outcome" where
  "net_429_429 r attempt = (if attempt < 2 then Responded r429 else Responded r)"

text \<open>Status 429 on every attempt.\<close>

definition net_429 :: "nat \<Rightarrow> fetch_outcome" where
  "net_429 attempt = Responded r429"

text \<open>Status 404 on every attempt.\<close>

definition net_404 :: "nat \<Rightarrow> fetch_outcome" where
  "net_404 attempt = Responded r404"

text \<open>
  A well-formed \<open>Content-Length\<close> value is a non-empty run of decimal digits; this is
  the number it denotes.
\<close>

definition isDecimalDigits :: "string \<Rightarrow> bool" where
  "isDecimalDigits s = (s \<noteq> [] \<and> list_all (\<lambda>c. 48 \<le> (of_char c :: nat) \<and> (of_char c :: nat) \<le> 57) s)"

definition decimalValue :: "string \<Rightarrow> nat" where
  "decimalValue s = foldl (\<lambda>acc c. acc * 10 + ((of_char c :: nat) - 48)) 0 s"

text \<open>The same platform with a disk that takes no more data.\<close>

definition platform_full_disk :: platform where
  "platform_full_disk =
     platform_ex\<lparr>writeFileSync :=
       (\<lambda>path data. Some (JsError ''Error'' ''ENOSPC: no space left on device, write''))\<rparr>"

definition params_google :: "response_type \<Rightarrow> fetch_params" where
  "params_google rt = \<lparr>p_url = url_google, p_responseType = rt, p_timeout = 30000\<rparr>"

definition fp_google :: fetchUrl_params where
  "fp_google = \<lparr>fp_url = url_google, fp_responseType = None, fp_timeout = None\<rparr>"

definition fp_howsearchworks_json :: fetchUrl_params where
  "fp_howsearchworks_json =
     \<lparr>fp_url = url_howsearchworks, fp_responseType = None, fp_timeout = None\<rparr>"

text \<open>The HTML page of the examples on every attempt.\<close>

definition net_html :: "nat \<Rightarrow> fetch_outcome" where
  "net_html attempt = Responded r200_html"

definition params_howsearchworks :: fetchUrl_params where
  "params_howsearchworks =
     \<lparr>fp_url = url_howsearchworks, fp_responseType = Some RMarkdown, fp_timeout = None\<rparr>"




section \<open>Properties of the extractors\<close>

lemma dropWhile_rev_keeps_hd:
  assumes "a \<noteq> []" and "\<not> P (hd a)"
  shows "hd (rev (dropWhile P (rev a))) = hd a \<and> rev (dropWhile P (rev a)) \<noteq> []"
proof -
  obtain x xs where a: "a = x # xs" using assms(1) by (cases a) auto
  with assms(2) have px: "\<not> P x" by simp
  have "dropWhile P (rev xs @ [x]) = dropWhile P (rev xs) @ [x]"
    using px by (simp add: dropWhile_append)
  then show ?thesis using a by simp
qed

lemma dropWhile_hd_stable: "xs \<noteq> [] \<Longrightarrow> \<not> P (hd xs) \<Longrightarrow> dropWhile P xs = xs"
  by (cases xs) auto

lemma trim_idem: "trim (trim s) = trim s"
proof -
  define a where "a = dropWhile isWhiteSpace s"
  define b where "b = dropWhile isWhiteSpace (rev a)"
  have leading: "dropWhile isWhiteSpace (rev b) = rev b"
  proof (cases "a = []")
    case True
    then show ?thesis by (simp add: b_def)
  next
    case False
    then have nw: "\<not> isWhiteSpace (hd a)"
      unfolding a_def by (rule hd_dropWhile)
    from False nw have "hd (rev b) = hd a \<and> rev b \<noteq> []"
      unfolding b_def by (rule dropWhile_rev_keeps_hd)
    with nw show ?thesis
      by (simp add: dropWhile_hd_stable)
  qed
  have trailing: "dropWhile isWhiteSpace b = b"
    unfolding b_def by (rule dropWhile_idem)
  have "trim s = rev b"
    by (simp add: trim_def a_def b_def)
  moreover have "trim (rev b) = rev b"
    by (simp add: trim_def leading trailing)
  ultimately show ?thesis by simp
qed

lemma map_filter_SomeD:
  "r \<in> set (List.map_filter f xs) \<Longrightarrow> \<exists>x \<in> set xs. f x = Some r"
  by (auto simp: List.map_filter_def)

lemma length_map_filter_le: "length (List.map_filter f xs) \<le> length xs"
  by (simp add: List.map_filter_def)

lemma newsCandidate_accepts:
  "newsCandidate e = Some r \<Longrightarrow> title r \<noteq> [] \<and> trim (title r) = title r \<and> url r \<noteq> []"
  by (auto simp: newsCandidate_def Let_def trim_idem split: option.splits if_splits)

lemma generalCandidate_accepts:
  "generalCandidate e = Some r \<Longrightarrow> title r \<noteq> [] \<and> trim (title r) = title r \<and> url r \<noteq> []"
  by (auto simp: generalCandidate_def Let_def trim_idem split: option.splits if_splits)

lemma candidate_uf_accepts:
  "candidate_uf e = Some r \<Longrightarrow> title r \<noteq> [] \<and> trim (title r) = title r \<and> url r \<noteq> []"
  by (auto simp: candidate_uf_def Let_def trim_idem split: option.splits if_splits)

lemma collectResults_p1_origin:
  "r \<in> set (collectResults_p1 doc) \<Longrightarrow>
     (\<exists>e. newsCandidate e = Some r) \<or> (\<exists>e. generalCandidate e = Some r)"
  by (auto simp: collectResults_p1_def Let_def split: if_splits dest!: map_filter_SomeD)

lemma collectResults_uf_origin:
  "r \<in> set (collectResults_uf doc) \<Longrightarrow> \<exists>e. candidate_uf e = Some r"
  by (auto simp: collectResults_uf_def Let_def split: if_splits dest!: map_filter_SomeD)

text \<open>
  The JSDOM extractor visits at most \<open>MAX_SEARCH_RESULTS\<close> blocks of the strategy that
  fills \<open>results\<close>, so it returns at most that many entries.
\<close>

lemma collectResults_uf_bounded: "length (collectResults_uf doc) \<le> MAX_SEARCH_RESULTS"
proof -
  have "length (List.map_filter candidate_uf (take MAX_SEARCH_RESULTS xs)) \<le> MAX_SEARCH_RESULTS"
    for xs :: "located list"
    using length_map_filter_le [of candidate_uf "take MAX_SEARCH_RESULTS xs"] by simp
  then show ?thesis
    by (simp add: collectResults_uf_def Let_def)
qed

text \<open>
  Claim C1, as the code has it. Every entry of the \<open>results\<close> array of either
  extractor has a title that is non-empty and is the trimmed heading text, and a URL
  that is non-empty. The URL is the raw \<open>href\<close> attribute: it is tested for emptiness
  without being trimmed.
\<close>

theorem extracted_entries_nonempty:
  "r \<in> set (collectResults_p1 doc) \<or> r \<in> set (collectResults_uf doc) \<Longrightarrow>
     title r \<noteq> [] \<and> trim (title r) = title r \<and> url r \<noteq> []"
  using collectResults_p1_origin [of r doc] collectResults_uf_origin [of r doc]
    newsCandidate_accepts generalCandidate_accepts candidate_uf_accepts
  by blast

text \<open>
  The theorem at the one-block page: the heading text \<open>"  Isabelle  "\<close> gives the entry
  titled \<open>Isabelle\<close>.
\<close>

theorem extracted_entries_nonempty_witness:
  "\<lparr>title = ''Isabelle'', url = ''https://isabelle.in.tum.de/'',
     description = Some ''A proof assistant''\<rparr> \<in> set (collectResults_p1 (doc_of blocks_one))
   \<and> trim ''Isabelle'' = ''Isabelle''"
proof -
  let ?r = "\<lparr>title = ''Isabelle'', url = ''https://isabelle.in.tum.de/'',
     description = Some ''A proof assistant''\<rparr>"
  have m: "?r \<in> set (collectResults_p1 (doc_of blocks_one))"
    by code_simp
  then have "?r \<in> set (collectResults_p1 (doc_of blocks_one))
      \<or> ?r \<in> set (collectResults_uf (doc_of blocks_one))"
    by (rule disjI1)
  then have "title ?r \<noteq> [] \<and> trim (title ?r) = title ?r \<and> url ?r \<noteq> []"
    by (rule extracted_entries_nonempty)
  then have "trim ''Isabelle'' = ''Isabelle''"
    by simp
  with m show ?thesis
    by (rule conjI)
qed

text \<open>
  Claim C1, as stated, fails for the URL. A block whose link is \<open><a href=" ">\<close> is
  accepted by both extractors, and its URL is empty after trimming.
\<close>

theorem blank_href_accepted:
  "extractGoogleResults_p1 platform_ex (html_of blocks_blank_href) RJson
     = Inr (FResults [\<lparr>title = ''Title'', url = '' '', description = Some ''Snippet''\<rparr>])
   \<and> collectResults_uf (doc_of blocks_blank_href)
     = [\<lparr>title = ''Title'', url = '' '', description = Some ''Snippet''\<rparr>]
   \<and> trim '' '' = []"
  by code_simp

text \<open>
  Claim C6 on the happy-dom extractor: from a page of six result blocks it returns six
  entries, one more than \<open>MAX_SEARCH_RESULTS\<close>, which that module declares and never
  reads.
\<close>

theorem six_results_returned:
  "extractGoogleResults_p1 platform_ex (html_of blocks_six) RJson
     = Inr (FResults (collectResults_p1 (doc_of blocks_six)))
   \<and> map title (collectResults_p1 (doc_of blocks_six))
     = [''One'', ''Two'', ''Three'', ''Four'', ''Five'', ''Six'']
   \<and> MAX_SEARCH_RESULTS = 5"
  by code_simp

section \<open>Properties of the \<open>fetch_url\<close> loop\<close>

lemma attemptStep_429:
  "status r = 429 \<Longrightarrow>
   attemptStep proc (Responded r) p attempt =
     (if attempt = MAX_RETRIES - 1
      then (Return (ToolError ''Rate limit exceeded. Please try again later.''),
            [Fetch (href (p_url p))])
      else (Continue, [Fetch (href (p_url p)), Sleep (getRetryDelay attempt)]))"
  by (simp add: attemptStep_def ok_def)

lemma attemptStep_http_error:
  "\<not> ok r \<Longrightarrow> status r \<noteq> 429 \<Longrightarrow>
   attemptStep proc (Responded r) p attempt =
     (Return (ToolError (''HTTP '' @ show_nat (status r) @ '': '' @ statusText r)),
      [Fetch (href (p_url p))])"
  by (simp add: attemptStep_def)

lemma attemptStep_processed:
  "ok r \<Longrightarrow> proc r (p_responseType p) (p_url p) = (Inr c, ev) \<Longrightarrow>
   attemptStep proc (Responded r) p attempt =
     (Return (ToolOk c (mimeTypeOf (p_responseType p))
        \<lparr>m_url = href (p_url p), m_contentType = contentTypeHeader r,
         m_contentLength = contentLengthHeader r, m_isGoogleSearch = isGoogleSearch (p_url p),
         m_responseType = p_responseType p\<rparr>),
      Fetch (href (p_url p)) # ev)"
  by (simp add: attemptStep_def)

lemma attemptStep_starts_with_fetch:
  "\<exists>ev. snd (attemptStep proc outcome p attempt) = Fetch (href (p_url p)) # ev"
  by (auto simp: attemptStep_def onCatch_def Let_def split: fetch_outcome.splits prod.splits sum.splits)

lemma loop_starts_with_fetch:
  assumes "attempt < MAX_RETRIES"
  shows "\<exists>ev. snd (fetch_url_loop proc net p attempt) = Fetch (href (p_url p)) # ev"
proof -
  obtain s ev where st: "attemptStep proc (net attempt) p attempt = (s, ev)"
    by (cases "attemptStep proc (net attempt) p attempt")
  from attemptStep_starts_with_fetch [of proc "net attempt" p attempt] st
  obtain ev0 where ev: "ev = Fetch (href (p_url p)) # ev0" by auto
  show ?thesis
    using assms st ev
    by (cases s) (auto simp: fetch_url_loop.simps [of proc net p attempt] split: prod.splits)
qed

lemma loop_continue:
  assumes "attempt < MAX_RETRIES"
    and "attemptStep proc (net attempt) p attempt = (Continue, ev)"
  shows "fetch_url_loop proc net p attempt =
           (fst (fetch_url_loop proc net p (attempt + 1)),
            ev @ snd (fetch_url_loop proc net p (attempt + 1)))"
  using assms by (simp add: fetch_url_loop.simps [of proc net p attempt] split: prod.splits)

lemma loop_return:
  assumes "attempt < MAX_RETRIES"
    and "attemptStep proc (net attempt) p attempt = (Return res, ev)"
  shows "fetch_url_loop proc net p attempt = (res, ev)"
  using assms by (simp add: fetch_url_loop.simps [of proc net p attempt])

lemma getRetryDelay_increasing: "getRetryDelay attempt < getRetryDelay (attempt + 1)"
  by (simp add: getRetryDelay_def INITIAL_RETRY_DELAY_def)

lemma processResponse_uf_events:
  "processResponse_uf P r rt u = (Inr c, ev) \<Longrightarrow> ev = [ReadBody]"
  by (auto simp: processResponse_uf_def split: if_splits sum.splits)

lemma processResponse_p1_events:
  "processResponse_p1 P r rt u = (Inr c, ev) \<Longrightarrow> ev = [ReadBody]"
  by (auto simp: processResponse_p1_def Let_def split: if_splits sum.splits fetched.splits)

lemma loop_429_429_then:
  assumes n0: "net 0 = Responded r0" "status r0 = 429"
    and n1: "net 1 = Responded r1" "status r1 = 429"
    and s2: "attemptStep proc (net 2) p 2 = (Return res, ev)"
  shows "fetch_url_loop proc net p 0 =
     (res, [Fetch (href (p_url p)), Sleep 1000, Fetch (href (p_url p)), Sleep 2000] @ ev)"
proof -
  have l2: "fetch_url_loop proc net p 2 = (res, ev)"
    using s2 by (intro loop_return) (simp_all add: MAX_RETRIES_def)
  have s1: "attemptStep proc (net 1) p 1 = (Continue, [Fetch (href (p_url p)), Sleep 2000])"
    using attemptStep_429 [OF n1(2), of proc p 1] n1(1)
    by (simp add: MAX_RETRIES_def getRetryDelay_def INITIAL_RETRY_DELAY_def)
  have l1: "fetch_url_loop proc net p 1 =
     (fst (fetch_url_loop proc net p 2),
      [Fetch (href (p_url p)), Sleep 2000] @ snd (fetch_url_loop proc net p 2))"
    using loop_continue [of 1 proc net p, OF _ s1] by (simp add: MAX_RETRIES_def numeral_2_eq_2)
  have s0: "attemptStep proc (net 0) p 0 = (Continue, [Fetch (href (p_url p)), Sleep 1000])"
    using attemptStep_429 [OF n0(2), of proc p 0] n0(1)
    by (simp add: MAX_RETRIES_def getRetryDelay_def INITIAL_RETRY_DELAY_def)
  have l0: "fetch_url_loop proc net p 0 =
     (fst (fetch_url_loop proc net p 1),
      [Fetch (href (p_url p)), Sleep 1000] @ snd (fetch_url_loop proc net p 1))"
    using loop_continue [of 0 proc net p, OF _ s0] by (simp add: MAX_RETRIES_def)
  show ?thesis
    using l0 l1 l2 by (simp add: numeral_2_eq_2)
qed

lemma loop_429_429_processed:
  assumes n0: "net 0 = Responded r0" "status r0 = 429"
    and n1: "net 1 = Responded r1" "status r1 = 429"
    and n2: "net 2 = Responded r2" "ok r2"
    and pr: "proc r2 (p_responseType p) (p_url p) = (Inr c, ev)"
  shows "fetch_url_loop proc net p 0 =
     (ToolOk c (mimeTypeOf (p_responseType p))
        \<lparr>m_url = href (p_url p), m_contentType = contentTypeHeader r2,
         m_contentLength = contentLengthHeader r2, m_isGoogleSearch = isGoogleSearch (p_url p),
         m_responseType = p_responseType p\<rparr>,
      [Fetch (href (p_url p)), Sleep 1000, Fetch (href (p_url p)), Sleep 2000,
       Fetch (href (p_url p))] @ ev)"
  using loop_429_429_then [OF n0 n1, of proc p _ "Fetch (href (p_url p)) # ev"]
    attemptStep_processed [of r2 proc p c ev 2] n2 pr
  by simp

lemma attemptStep_threw_last:
  assumes "ok r" and "proc r (p_responseType p) (p_url p) = (Inl (JsError ''Error'' m), ev)"
  shows "attemptStep proc (Responded r) p (MAX_RETRIES - 1) =
     (Return (ToolError (''Failed to fetch URL: '' @ m)), Fetch (href (p_url p)) # ev)"
  using assms by (simp add: attemptStep_def onCatch_def)

lemma processResponse_uf_not_json:
  "\<not> tooLarge r \<Longrightarrow> \<not> isGoogleSearch u \<Longrightarrow> body r = Inr txt \<Longrightarrow>
   \<not> str_includes (contentType r) ''application/json'' \<Longrightarrow>
   processResponse_uf P r RJson u = (Inl (newError ''Response is not JSON''), [ReadBody])"
  by (simp add: processResponse_uf_def formatByType_def)

lemma processResponse_p1_not_json:
  "\<not> tooLarge r \<Longrightarrow> \<not> isGoogleSearch u \<Longrightarrow> body r = Inr txt \<Longrightarrow>
   \<not> str_includes (contentType r) ''application/json'' \<Longrightarrow>
   processResponse_p1 P r RJson u = (Inl (newError ''Response is not JSON''), [ReadBody])"
  by (simp add: processResponse_p1_def formatByType_def)

lemma processResponse_text:
  assumes "\<not> tooLarge r" and "\<not> isGoogleSearch u" and "body r = Inr txt"
  shows "processResponse_uf P r RText u = (Inr txt, [ReadBody])"
    and "processResponse_p1 P r RText u = (Inr txt, [ReadBody])"
  using assms by (simp_all add: processResponse_uf_def processResponse_p1_def formatByType_def)

lemma small_response_not_tooLarge: "\<not> tooLarge r200_plain"
  by code_simp

lemma url_example_not_search: "\<not> isGoogleSearch url_example"
  by code_simp

text \<open>
  Claim C2, as the code has it. A response with status 429 on an attempt before the last
  is followed by one sleep of \<open>INITIAL_RETRY_DELAY * 2 ^ attempt\<close> milliseconds and then by
  the request of the next attempt; the delays grow strictly. With 429 on the first two
  attempts and a 2xx response on the third whose processing returns a content, either
  handler returns a success after the sleeps of 1000 and 2000 milliseconds and no other.
  A 429 on the last attempt returns the rate-limit error with no sleep after the request.
\<close>

theorem backoff_on_rate_limit:
  "(attempt < MAX_RETRIES - 1 \<and> net attempt = Responded r \<and> status r = 429 \<longrightarrow>
      fetch_url_loop proc net p attempt =
        (fst (fetch_url_loop proc net p (attempt + 1)),
         [Fetch (href (p_url p)), Sleep (INITIAL_RETRY_DELAY * 2 ^ attempt)]
           @ snd (fetch_url_loop proc net p (attempt + 1)))
      \<and> (\<exists>ev. snd (fetch_url_loop proc net p (attempt + 1)) = Fetch (href (p_url p)) # ev))
   \<and> getRetryDelay attempt = INITIAL_RETRY_DELAY * 2 ^ attempt
   \<and> getRetryDelay attempt < getRetryDelay (attempt + 1)
   \<and> (net 0 = Responded r0 \<and> status r0 = 429 \<and> net 1 = Responded r1 \<and> status r1 = 429
        \<and> net 2 = Responded r2 \<and> ok r2
        \<and> fst (processResponse_uf P r2 (p_responseType p) (p_url p)) = Inr c \<longrightarrow>
      fetch_url_uf P net p =
        (ToolOk c (mimeTypeOf (p_responseType p))
           \<lparr>m_url = href (p_url p), m_contentType = contentTypeHeader r2,
            m_contentLength = contentLengthHeader r2,
            m_isGoogleSearch = isGoogleSearch (p_url p),
            m_responseType = p_responseType p\<rparr>,
         [Fetch (href (p_url p)), Sleep 1000, Fetch (href (p_url p)), Sleep 2000,
          Fetch (href (p_url p)), ReadBody]))
   \<and> (net 0 = Responded r0 \<and> status r0 = 429 \<and> net 1 = Responded r1 \<and> status r1 = 429
        \<and> net 2 = Responded r2 \<and> ok r2
        \<and> fst (processResponse_p1 P r2 (p_responseType p) (p_url p)) = Inr c \<longrightarrow>
      fetch_url_p1 P net p =
        (ToolOk c (mimeTypeOf (p_responseType p))
           \<lparr>m_url = href (p_url p), m_contentType = contentTypeHeader r2,
            m_contentLength = contentLengthHeader r2,
            m_isGoogleSearch = isGoogleSearch (p_url p),
            m_responseType = p_responseType p\<rparr>,
         [Fetch (href (p_url p)), Sleep 1000, Fetch (href (p_url p)), Sleep 2000,
          Fetch (href (p_url p)), ReadBody]))
   \<and> (net (MAX_RETRIES - 1) = Responded r \<and> status r = 429 \<longrightarrow>
      fetch_url_loop proc net p (MAX_RETRIES - 1) =
        (ToolError ''Rate limit exceeded. Please try again later.'', [Fetch (href (p_url p))]))"
proof (intro conjI impI)
  assume a: "attempt < MAX_RETRIES - 1 \<and> net attempt = Responded r \<and> status r = 429"
  then have st: "attemptStep proc (net attempt) p attempt
      = (Continue, [Fetch (href (p_url p)), Sleep (getRetryDelay attempt)])"
    using attemptStep_429 [of r proc p attempt] by simp
  from a have lt: "attempt < MAX_RETRIES" by arith
  show "fetch_url_loop proc net p attempt =
        (fst (fetch_url_loop proc net p (attempt + 1)),
         [Fetch (href (p_url p)), Sleep (INITIAL_RETRY_DELAY * 2 ^ attempt)]
           @ snd (fetch_url_loop proc net p (attempt + 1)))"
    using loop_continue [of attempt proc net p, OF lt st] by (simp add: getRetryDelay_def)
  from a have "attempt + 1 < MAX_RETRIES" by arith
  then show "\<exists>ev. snd (fetch_url_loop proc net p (attempt + 1)) = Fetch (href (p_url p)) # ev"
    by (rule loop_starts_with_fetch)
next
  show "getRetryDelay attempt = INITIAL_RETRY_DELAY * 2 ^ attempt"
    by (simp add: getRetryDelay_def)
next
  show "getRetryDelay attempt < getRetryDelay (attempt + 1)"
    by (rule getRetryDelay_increasing)
next
  assume a: "net 0 = Responded r0 \<and> status r0 = 429 \<and> net 1 = Responded r1 \<and> status r1 = 429
        \<and> net 2 = Responded r2 \<and> ok r2
        \<and> fst (processResponse_uf P r2 (p_responseType p) (p_url p)) = Inr c"
  then obtain ev where pr: "processResponse_uf P r2 (p_responseType p) (p_url p) = (Inr c, ev)"
    by (cases "processResponse_uf P r2 (p_responseType p) (p_url p)") auto
  then have ev: "ev = [ReadBody]" by (rule processResponse_uf_events)
  from a pr show "fetch_url_uf P net p =
        (ToolOk c (mimeTypeOf (p_responseType p))
           \<lparr>m_url = href (p_url p), m_contentType = contentTypeHeader r2,
            m_contentLength = contentLengthHeader r2,
            m_isGoogleSearch = isGoogleSearch (p_url p),
            m_responseType = p_responseType p\<rparr>,
         [Fetch (href (p_url p)), Sleep 1000, Fetch (href (p_url p)), Sleep 2000,
          Fetch (href (p_url p)), ReadBody])"
    unfolding fetch_url_uf_def
    using loop_429_429_processed [of net r0 r1 r2 "processResponse_uf P" p c ev]
    by (simp add: ev)
next
  assume a: "net 0 = Responded r0 \<and> status r0 = 429 \<and> net 1 = Responded r1 \<and> status r1 = 429
        \<and> net 2 = Responded r2 \<and> ok r2
        \<and> fst (processResponse_p1 P r2 (p_responseType p) (p_url p)) = Inr c"
  then obtain ev where pr: "processResponse_p1 P r2 (p_responseType p) (p_url p) = (Inr c, ev)"
    by (cases "processResponse_p1 P r2 (p_responseType p) (p_url p)") auto
  then have ev: "ev = [ReadBody]" by (rule processResponse_p1_events)
  from a pr show "fetch_url_p1 P net p =
        (ToolOk c (mimeTypeOf (p_responseType p))
           \<lparr>m_url = href (p_url p), m_contentType = contentTypeHeader r2,
            m_contentLength = contentLengthHeader r2,
            m_isGoogleSearch = isGoogleSearch (p_url p),
            m_responseType = p_responseType p\<rparr>,
         [Fetch (href (p_url p)), Sleep 1000, Fetch (href (p_url p)), Sleep 2000,
          Fetch (href (p_url p)), ReadBody])"
    unfolding fetch_url_p1_def
    using loop_429_429_processed [of net r0 r1 r2 "processResponse_p1 P" p c ev]
    by (simp add: ev)
next
  assume a: "net (MAX_RETRIES - 1) = Responded r \<and> status r = 429"
  then have "attemptStep proc (net (MAX_RETRIES - 1)) p (MAX_RETRIES - 1)
      = (Return (ToolError ''Rate limit exceeded. Please try again later.''),
         [Fetch (href (p_url p))])"
    using attemptStep_429 [of r proc p "MAX_RETRIES - 1"] by simp
  then show "fetch_url_loop proc net p (MAX_RETRIES - 1) =
        (ToolError ''Rate limit exceeded. Please try again later.'', [Fetch (href (p_url p))])"
    by (intro loop_return) (simp_all add: MAX_RETRIES_def)
qed

text \<open>
  The theorem at a plain text response after two 429 responses, and at a third 429.
\<close>

theorem backoff_on_rate_limit_witness:
  "fetch_url_uf platform_ex (net_429_429 r200_plain) (params_ex url_example RText) =
     (ToolOk ''hello'' ''text/plain''
        \<lparr>m_url = ''https://example.com/page'', m_contentType = Some ''text/plain'',
         m_contentLength = Some ''5'', m_isGoogleSearch = False, m_responseType = RText\<rparr>,
      [Fetch ''https://example.com/page'', Sleep 1000, Fetch ''https://example.com/page'',
       Sleep 2000, Fetch ''https://example.com/page'', ReadBody])
   \<and> fetch_url_loop (processResponse_uf platform_ex) net_429 (params_ex url_example RText) 2 =
     (ToolError ''Rate limit exceeded. Please try again later.'',
      [Fetch ''https://example.com/page''])"
proof -
  let ?p = "params_ex url_example RText"
  have pr: "processResponse_uf platform_ex r200_plain (p_responseType ?p) (p_url ?p)
      = (Inr ''hello'', [ReadBody])"
    using processResponse_text(1) [OF small_response_not_tooLarge url_example_not_search,
        of "''hello''" platform_ex]
    by (simp add: params_ex_def r200_plain_def resp_def)
  have h: "net_429_429 r200_plain 0 = Responded r429 \<and> status r429 = 429
      \<and> net_429_429 r200_plain 1 = Responded r429 \<and> status r429 = 429
      \<and> net_429_429 r200_plain 2 = Responded r200_plain \<and> ok r200_plain
      \<and> fst (processResponse_uf platform_ex r200_plain (p_responseType ?p) (p_url ?p))
          = Inr ''hello''"
  proof -
    have "status r429 = 429" "ok r200_plain"
      by (simp_all add: r429_def r200_plain_def resp_def ok_def)
    then show ?thesis
      by (simp add: pr net_429_429_def)
  qed
  have g: "net_429 (MAX_RETRIES - 1) = Responded r429 \<and> status r429 = 429"
    by (simp add: net_429_def r429_def resp_def)
  have v: "mimeTypeOf (p_responseType ?p) = ''text/plain'' \<and> href (p_url ?p) = ''https://example.com/page''
      \<and> contentTypeHeader r200_plain = Some ''text/plain''
      \<and> contentLengthHeader r200_plain = Some ''5''
      \<and> isGoogleSearch (p_url ?p) = False \<and> p_responseType ?p = RText
      \<and> MAX_RETRIES - 1 = 2"
    using url_example_not_search
    by (simp add: params_ex_def url_example_def mimeTypeOf_def r200_plain_def resp_def
        MAX_RETRIES_def)
  note t1 = backoff_on_rate_limit [where net = "net_429_429 r200_plain" and p = ?p
      and P = platform_ex and ?r0.0 = r429 and ?r1.0 = r429 and ?r2.0 = r200_plain
      and c = "''hello''"]
  have first: "fetch_url_uf platform_ex (net_429_429 r200_plain) ?p =
        (ToolOk ''hello'' (mimeTypeOf (p_responseType ?p))
           \<lparr>m_url = href (p_url ?p), m_contentType = contentTypeHeader r200_plain,
            m_contentLength = contentLengthHeader r200_plain,
            m_isGoogleSearch = isGoogleSearch (p_url ?p),
            m_responseType = p_responseType ?p\<rparr>,
         [Fetch (href (p_url ?p)), Sleep 1000, Fetch (href (p_url ?p)), Sleep 2000,
          Fetch (href (p_url ?p)), ReadBody])"
    by (rule t1 [THEN conjunct2, THEN conjunct2, THEN conjunct2, THEN conjunct1, THEN mp, OF h])
  note t2 = backoff_on_rate_limit [where net = net_429 and p = ?p and r = r429
      and proc = "processResponse_uf platform_ex"]
  have last: "fetch_url_loop (processResponse_uf platform_ex) net_429 ?p (MAX_RETRIES - 1) =
        (ToolError ''Rate limit exceeded. Please try again later.'', [Fetch (href (p_url ?p))])"
    by (rule t2 [THEN conjunct2, THEN conjunct2, THEN conjunct2, THEN conjunct2, THEN conjunct2,
          THEN mp, OF g])
  from first last v show ?thesis
    by (simp add: mimeTypeOf_def)
qed

text \<open>
  Claim C2, as stated, fails when the processing of the 2xx response throws: the
  \<open>catch\<close> block of the last attempt turns the exception into an error result. Here the
  third response is \<open>text/plain\<close> and the request asks for \<open>json\<close>.
\<close>

theorem unprocessable_third_response:
  "net_429_429 r200_plain 0 = Responded r429 \<and> net_429_429 r200_plain 1 = Responded r429
   \<and> net_429_429 r200_plain 2 = Responded r200_plain
   \<and> status r429 = 429 \<and> ok r200_plain
   \<and> fetch_url_uf platform_ex (net_429_429 r200_plain) (params_ex url_example RJson) =
       (ToolError ''Failed to fetch URL: Response is not JSON'',
        [Fetch ''https://example.com/page'', Sleep 1000, Fetch ''https://example.com/page'',
         Sleep 2000, Fetch ''https://example.com/page'', ReadBody])"
proof -
  let ?p = "params_ex url_example RJson"
  have n: "net_429_429 r200_plain 0 = Responded r429" "net_429_429 r200_plain 1 = Responded r429"
    "net_429_429 r200_plain 2 = Responded r200_plain"
    by (simp_all add: net_429_429_def)
  have st: "status r429 = 429" "ok r200_plain"
    by (simp_all add: r429_def r200_plain_def resp_def ok_def)
  have ct: "\<not> str_includes (contentType r200_plain) ''application/json''"
    by code_simp
  have pr: "processResponse_uf platform_ex r200_plain (p_responseType ?p) (p_url ?p)
      = (Inl (JsError ''Error'' ''Response is not JSON''), [ReadBody])"
    using processResponse_uf_not_json [OF small_response_not_tooLarge url_example_not_search _ ct,
        of "''hello''" platform_ex]
    by (simp add: params_ex_def r200_plain_def resp_def newError_def)
  have u: "href (p_url ?p) = ''https://example.com/page''"
    by (simp add: params_ex_def url_example_def)
  have "attemptStep (processResponse_uf platform_ex) (net_429_429 r200_plain 2) ?p 2
      = (Return (ToolError (''Failed to fetch URL: '' @ ''Response is not JSON'')),
         Fetch (href (p_url ?p)) # [ReadBody])"
    using attemptStep_threw_last [of r200_plain "processResponse_uf platform_ex" ?p "''Response is not JSON''" "[ReadBody]", OF st(2) pr]
    by (simp add: n MAX_RETRIES_def)
  from loop_429_429_then [OF n(1) st(1) n(2) st(1) this]
  have "fetch_url_uf platform_ex (net_429_429 r200_plain) ?p =
      (ToolError ''Failed to fetch URL: Response is not JSON'',
        [Fetch ''https://example.com/page'', Sleep 1000, Fetch ''https://example.com/page'',
         Sleep 2000, Fetch ''https://example.com/page'', ReadBody])"
    by (simp add: fetch_url_uf_def u)
  with n st show ?thesis by simp
qed

text \<open>
  Claim C3. On any attempt of the loop, a response whose status is neither 2xx nor 429
  ends the handler at once: the result is the error \<open>HTTP <status>: <reason>\<close> and the
  attempt performs its request and nothing else, no sleep and no further request. Both
  handlers are this loop started at attempt 0.
\<close>

theorem http_error_returned_at_once:
  "attempt < MAX_RETRIES \<Longrightarrow> net attempt = Responded r \<Longrightarrow> \<not> ok r \<Longrightarrow> status r \<noteq> 429 \<Longrightarrow>
   fetch_url_loop proc net p attempt =
     (ToolError (''HTTP '' @ show_nat (status r) @ '': '' @ statusText r),
      [Fetch (href (p_url p))])"
  using attemptStep_http_error [of r proc p attempt] loop_return [of attempt proc net p]
  by simp

text \<open>The theorem at a 404 response on the first attempt, for both handlers.\<close>

theorem http_error_returned_at_once_witness:
  "fetch_url_uf platform_ex net_404 (params_ex url_example RText) =
     (ToolError ''HTTP 404: Not Found'', [Fetch ''https://example.com/page''])
   \<and> fetch_url_p1 platform_ex net_404 (params_ex url_example RText) =
     (ToolError ''HTTP 404: Not Found'', [Fetch ''https://example.com/page''])"
proof -
  let ?p = "params_ex url_example RText"
  have h: "0 < MAX_RETRIES" "net_404 0 = Responded r404" "\<not> ok r404" "status r404 \<noteq> 429"
    by (simp_all add: MAX_RETRIES_def net_404_def r404_def resp_def ok_def)
  have "show_nat 404 = ''404''"
    by code_simp
  then have v: "''HTTP '' @ show_nat (status r404) @ '': '' @ statusText r404 = ''HTTP 404: Not Found''"
    "href (p_url ?p) = ''https://example.com/page''"
    by (simp_all add: r404_def resp_def params_ex_def url_example_def)
  have "fetch_url_loop (processResponse_uf platform_ex) net_404 ?p 0 =
     (ToolError (''HTTP '' @ show_nat (status r404) @ '': '' @ statusText r404),
      [Fetch (href (p_url ?p))])"
    using h by (rule http_error_returned_at_once)
  moreover have "fetch_url_loop (processResponse_p1 platform_ex) net_404 ?p 0 =
     (ToolError (''HTTP '' @ show_nat (status r404) @ '': '' @ statusText r404),
      [Fetch (href (p_url ?p))])"
    using h by (rule http_error_returned_at_once)
  ultimately show ?thesis
    by (simp only: fetch_url_uf_def fetch_url_p1_def v simp_thms)
qed

section \<open>Properties of \<open>processResponse\<close>\<close>

lemma digit_not_whitespace:
  "48 \<le> (of_char c :: nat) \<Longrightarrow> (of_char c :: nat) \<le> 57 \<Longrightarrow> \<not> isWhiteSpace c"
  by (auto simp: isWhiteSpace_def)

lemma digit_value:
  "48 \<le> (of_char c :: nat) \<Longrightarrow> (of_char c :: nat) \<le> 57 \<Longrightarrow>
   digitValue c = Some (of_char c - 48)"
  by (simp add: digitValue_def Let_def)

lemma digit_is_radix10:
  "48 \<le> (of_char c :: nat) \<Longrightarrow> (of_char c :: nat) \<le> 57 \<Longrightarrow> isRadixDigit 10 c"
  by (auto simp: isRadixDigit_def digit_value)

lemma digits_foldl:
  "list_all (\<lambda>c. 48 \<le> (of_char c :: nat) \<and> (of_char c :: nat) \<le> 57) s \<Longrightarrow>
   foldl (\<lambda>acc c. acc * 10 + the (digitValue c)) a s
     = foldl (\<lambda>acc c. acc * 10 + ((of_char c :: nat) - 48)) a s"
  by (induction s arbitrary: a) (simp_all add: digit_value)

lemma parseInt_decimal:
  assumes "isDecimalDigits s"
  shows "parseInt s = Some (int (decimalValue s))"
proof -
  from assms obtain c cs where s: "s = c # cs"
    by (cases s) (auto simp: isDecimalDigits_def)
  from assms have all: "list_all (\<lambda>c. 48 \<le> (of_char c :: nat) \<and> (of_char c :: nat) \<le> 57) s"
    by (simp add: isDecimalDigits_def)
  with s have c: "48 \<le> (of_char c :: nat)" "(of_char c :: nat) \<le> 57"
    by simp_all
  have ws: "dropWhile isWhiteSpace s = s"
    using s digit_not_whitespace [OF c] by simp
  have negative: "(hd s = CHR ''-'') = False"
    using s c by auto
  have signed: "(hd s = CHR ''+'') = False"
    using s c by auto
  have hex: "(prefix ''0x'' s \<or> prefix ''0X'' s) = False"
    using all s by (auto simp: prefix_def)
  have tw: "takeWhile (isRadixDigit 10) s = s"
    using all by (simp add: takeWhile_eq_all_conv list_all_iff digit_is_radix10)
  have val: "digitsValue 10 s = decimalValue s"
    unfolding digitsValue_def decimalValue_def using all by (rule digits_foldl)
  have nonempty: "(s = []) = False"
    using s by simp
  show ?thesis
    by (simp only: parseInt_def Let_def ws negative signed hex if_False tw val nonempty simp_thms)
qed

lemma tooLarge_decimal:
  assumes "contentLengthHeader r = Some s" and "isDecimalDigits s"
  shows "tooLarge r \<longleftrightarrow> int (decimalValue s) > MAX_RESPONSE_SIZE"
proof -
  from assms(2) have "s \<noteq> []" by (simp add: isDecimalDigits_def)
  with assms show ?thesis
    by (simp add: tooLarge_def contentLength_def parseInt_decimal)
qed

lemma parseInt_zero: "parseInt ''0'' = Some 0"
  using parseInt_decimal [of "''0''"] by (simp add: isDecimalDigits_def decimalValue_def)

lemma tooLarge_absent: "contentLengthHeader r = None \<Longrightarrow> \<not> tooLarge r"
  by (simp add: tooLarge_def contentLength_def parseInt_zero MAX_RESPONSE_SIZE_def)

lemma processResponse_too_large:
  assumes "tooLarge r"
  shows "processResponse_uf P r rt u = (Inl (newError ''Response too large''), [])"
    and "processResponse_p1 P r rt u = (Inl (newError ''Response too large''), [])"
  using assms by (simp_all add: processResponse_uf_def processResponse_p1_def)

lemma processResponse_reads_body:
  assumes "\<not> tooLarge r"
  shows "snd (processResponse_uf P r rt u) = [ReadBody]"
    and "snd (processResponse_p1 P r rt u) = [ReadBody]"
  using assms
  by (auto simp: processResponse_uf_def processResponse_p1_def Let_def
      split: sum.splits fetched.splits)

text \<open>
  Claim C4. When the \<open>content-length\<close> header is present and its number exceeds
  \<open>MAX_RESPONSE_SIZE\<close> (10 MiB), \<open>processResponse\<close> of either module throws
  \<open>Response too large\<close> and has performed no effect: the body is not read. When the header
  is absent or its number is within the limit, the body is read.
\<close>

theorem size_limit_checked_before_read:
  "(contentLengthHeader r = Some s \<and> isDecimalDigits s
      \<and> int (decimalValue s) > MAX_RESPONSE_SIZE \<longrightarrow>
      processResponse_uf P r rt u = (Inl (newError ''Response too large''), [])
      \<and> processResponse_p1 P r rt u = (Inl (newError ''Response too large''), []))
   \<and> (contentLengthHeader r = None
        \<or> (contentLengthHeader r = Some s \<and> isDecimalDigits s
            \<and> int (decimalValue s) \<le> MAX_RESPONSE_SIZE) \<longrightarrow>
      snd (processResponse_uf P r rt u) = [ReadBody]
      \<and> snd (processResponse_p1 P r rt u) = [ReadBody])
   \<and> MAX_RESPONSE_SIZE = 10485760"
proof (intro conjI impI)
  assume a: "contentLengthHeader r = Some s \<and> isDecimalDigits s
      \<and> int (decimalValue s) > MAX_RESPONSE_SIZE"
  then have big: "tooLarge r" using tooLarge_decimal [of r s] by simp
  then show "processResponse_uf P r rt u = (Inl (newError ''Response too large''), [])"
    by (rule processResponse_too_large)
  from big show "processResponse_p1 P r rt u = (Inl (newError ''Response too large''), [])"
    by (rule processResponse_too_large)
next
  assume a: "contentLengthHeader r = None
        \<or> (contentLengthHeader r = Some s \<and> isDecimalDigits s
            \<and> int (decimalValue s) \<le> MAX_RESPONSE_SIZE)"
  then have small: "\<not> tooLarge r"
    using tooLarge_absent [of r] tooLarge_decimal [of r s] by auto
  then show "snd (processResponse_uf P r rt u) = [ReadBody]"
    by (rule processResponse_reads_body)
  from small show "snd (processResponse_p1 P r rt u) = [ReadBody]"
    by (rule processResponse_reads_body)
next
  show "MAX_RESPONSE_SIZE = 10485760"
    by (simp add: MAX_RESPONSE_SIZE_def)
qed

text \<open>
  The theorem at a declared length of 10485761, at a declared length of 5 and at a
  response without the header.
\<close>

theorem size_limit_checked_before_read_witness:
  "processResponse_uf platform_ex r200_big RText url_example
     = (Inl (JsError ''Error'' ''Response too large''), [])
   \<and> processResponse_p1 platform_ex r200_big RText url_example
     = (Inl (JsError ''Error'' ''Response too large''), [])
   \<and> snd (processResponse_uf platform_ex r200_plain RText url_example) = [ReadBody]
   \<and> snd (processResponse_p1 platform_ex r200_plain RText url_example) = [ReadBody]
   \<and> snd (processResponse_uf platform_ex r200_json RJson url_example) = [ReadBody]"
proof -
  have big: "contentLengthHeader r200_big = Some ''10485761'' \<and> isDecimalDigits ''10485761''
      \<and> int (decimalValue ''10485761'') > MAX_RESPONSE_SIZE"
    by (simp add: r200_big_def resp_def isDecimalDigits_def decimalValue_def
        MAX_RESPONSE_SIZE_def)
  have small: "contentLengthHeader r200_plain = None
        \<or> (contentLengthHeader r200_plain = Some ''5'' \<and> isDecimalDigits ''5''
            \<and> int (decimalValue ''5'') \<le> MAX_RESPONSE_SIZE)"
    by (simp add: r200_plain_def resp_def isDecimalDigits_def decimalValue_def
        MAX_RESPONSE_SIZE_def)
  have absent: "contentLengthHeader r200_json = None
        \<or> (contentLengthHeader r200_json = Some s \<and> isDecimalDigits s
            \<and> int (decimalValue s) \<le> MAX_RESPONSE_SIZE)" for s
    by (simp add: r200_json_def resp_def)
  note t1 = size_limit_checked_before_read [of r200_big "''10485761''" platform_ex RText url_example]
  note t2 = size_limit_checked_before_read [of r200_plain "''5''" platform_ex RText url_example]
  note t3 = size_limit_checked_before_read [of r200_json "''5''" platform_ex RJson url_example]
  from t1 [THEN conjunct1, THEN mp, OF big]
       t2 [THEN conjunct2, THEN conjunct1, THEN mp, OF small]
       t3 [THEN conjunct2, THEN conjunct1, THEN mp, OF absent]
  show ?thesis
    by (simp add: newError_def)
qed


lemma processResponse_generic:
  assumes "\<not> tooLarge r" and "\<not> isGoogleSearch u" and "body r = Inr txt"
  shows "processResponse_uf P r rt u = (formatByType P (contentType r) rt txt, [ReadBody])"
    and "processResponse_p1 P r rt u = (formatByType P (contentType r) rt txt, [ReadBody])"
  using assms by (simp_all add: processResponse_uf_def processResponse_p1_def)

lemma processResponse_uf_search:
  assumes "\<not> tooLarge r" and "isGoogleSearch u" and "body r = Inr txt"
  shows "processResponse_uf P r rt u = (extractGoogleResults_uf P txt rt, [ReadBody])"
  using assms by (simp add: processResponse_uf_def)

text \<open>
  Claim C5, as the code has it. For a response that passes the size check, whose body
  can be read and whose URL is not the search endpoint: a request for \<open>json\<close> throws
  \<open>Response is not JSON\<close> and returns no body when the content type does not include
  \<open>application/json\<close>; when it does, the body is parsed, a parse error is thrown on, and
  the parsed value is serialised again with an indentation of two spaces.
\<close>

theorem json_requires_json_content_type:
  "\<not> tooLarge r \<Longrightarrow> \<not> isGoogleSearch u \<Longrightarrow> body r = Inr txt \<Longrightarrow>
   (\<not> str_includes (contentType r) ''application/json'' \<longrightarrow>
      fst (processResponse_uf P r RJson u) = Inl (newError ''Response is not JSON'')
      \<and> fst (processResponse_p1 P r RJson u) = Inl (newError ''Response is not JSON''))
   \<and> (str_includes (contentType r) ''application/json'' \<longrightarrow>
      fst (processResponse_uf P r RJson u)
        = (case JSON_parse P txt of Inl e \<Rightarrow> Inl e | Inr v \<Rightarrow> Inr (JSON_stringify2 v))
      \<and> fst (processResponse_p1 P r RJson u)
        = (case JSON_parse P txt of Inl e \<Rightarrow> Inl e | Inr v \<Rightarrow> Inr (JSON_stringify2 v)))"
  by (simp add: processResponse_generic formatByType_def)

text \<open>The theorem at a \<open>text/plain\<close> response and at a JSON response.\<close>

theorem json_requires_json_content_type_witness:
  "fst (processResponse_uf platform_ex r200_plain RJson url_example)
     = Inl (JsError ''Error'' ''Response is not JSON'')
   \<and> fst (processResponse_uf platform_ex r200_json RJson url_example)
     = Inr (''{'' @ [CHR 0x0A] @ ''  '' @ [CHR 0x22] @ ''a'' @ [CHR 0x22] @ '': ['' @ [CHR 0x0A]
            @ ''    1,'' @ [CHR 0x0A] @ ''    true'' @ [CHR 0x0A] @ ''  ]'' @ [CHR 0x0A] @ ''}'')"
proof -
  have u: "\<not> isGoogleSearch url_example"
    by (simp add: isGoogleSearch_def url_example_def GOOGLE_SEARCH_URL_def)
  have s1: "\<not> tooLarge r200_plain"
    using tooLarge_decimal [of r200_plain "''5''"]
    by (simp add: r200_plain_def resp_def isDecimalDigits_def decimalValue_def
        MAX_RESPONSE_SIZE_def)
  have s2: "\<not> tooLarge r200_json"
    by (rule tooLarge_absent) (simp add: r200_json_def resp_def)
  have b1: "body r200_plain = Inr ''hello''"
    by (simp add: r200_plain_def resp_def)
  have b2: "body r200_json = Inr json_text"
    by (simp add: r200_json_def resp_def)
  have c1: "\<not> str_includes (contentType r200_plain) ''application/json''"
    by (simp add: contentType_def r200_plain_def resp_def)
  have c2: "str_includes (contentType r200_json) ''application/json''"
    by (simp add: contentType_def r200_json_def resp_def)
  have parse: "JSON_parse platform_ex json_text = Inr json_value"
    by (simp add: platform_ex_def)
  have out: "JSON_stringify2 json_value
      = ''{'' @ [CHR 0x0A] @ ''  '' @ [CHR 0x22] @ ''a'' @ [CHR 0x22] @ '': ['' @ [CHR 0x0A]
            @ ''    1,'' @ [CHR 0x0A] @ ''    true'' @ [CHR 0x0A] @ ''  ]'' @ [CHR 0x0A] @ ''}''"
    by (simp add: JSON_stringify2_def json_value_def quoteJSONString_def quoteChar_def)
  from json_requires_json_content_type [OF s1 u b1, of platform_ex, THEN conjunct1, THEN mp, OF c1]
       json_requires_json_content_type [OF s2 u b2, of platform_ex, THEN conjunct2, THEN mp, OF c2]
  show ?thesis
    by (simp add: newError_def parse out)
qed

text \<open>
  Claim C5, as stated for every response, fails on the search endpoint: the search
  branch comes before the \<open>switch\<close>, so a \<open>text/html\<close> result page requested as
  \<open>json\<close> returns a body, the serialised result list. A response over the size limit
  fails with the size error, not with the content-type error.
\<close>

theorem json_from_search_page:
  "contentType r200_html = ''text/html; charset=UTF-8''
   \<and> str_includes (contentType r200_html) ''application/json'' = False
   \<and> isGoogleSearch url_google
   \<and> processResponse_uf platform_ex r200_html RJson url_google = (Inr ''[]'', [ReadBody])
   \<and> str_includes (contentType r200_big) ''application/json'' = False
   \<and> processResponse_uf platform_ex r200_big RJson url_example
       = (Inl (JsError ''Error'' ''Response too large''), [])"
proof -
  have ct: "contentType r200_html = ''text/html; charset=UTF-8''"
    by (simp add: contentType_def r200_html_def resp_def)
  have nj: "str_includes ''text/html; charset=UTF-8'' ''application/json'' = False"
    by simp
  have g: "isGoogleSearch url_google"
    by (simp add: isGoogleSearch_def url_google_def GOOGLE_SEARCH_URL_def)
  have s: "\<not> tooLarge r200_html"
    by (rule tooLarge_absent) (simp add: r200_html_def resp_def)
  have b: "body r200_html = Inr html_plain"
    by (simp add: r200_html_def resp_def)
  have none: "collectResults_uf doc_plain = []"
    by code_simp
  have ex: "extractGoogleResults_uf platform_ex html_plain RJson = Inr ''[]''"
    by (simp add: extractGoogleResults_uf_def platform_ex_def none render_uf_def
        JSON_stringify2_def)
  have search: "processResponse_uf platform_ex r200_html RJson url_google = (Inr ''[]'', [ReadBody])"
    using processResponse_uf_search [OF s g b, of platform_ex RJson] by (simp add: ex)
  have nj2: "str_includes (contentType r200_big) ''application/json'' = False"
    by (simp add: contentType_def r200_big_def resp_def)
  have "tooLarge r200_big"
    using tooLarge_decimal [of r200_big "''10485761''"]
    by (simp add: r200_big_def resp_def isDecimalDigits_def decimalValue_def
        MAX_RESPONSE_SIZE_def)
  then have big: "processResponse_uf platform_ex r200_big RJson url_example
       = (Inl (JsError ''Error'' ''Response too large''), [])"
    by (simp add: processResponse_too_large newError_def)
  from ct nj g search nj2 big show ?thesis
    by simp
qed

section \<open>Effects and the search branch of the fetch paths\<close>

lemma fetchUrl_events:
  "snd (fetchUrl P outcome u rt) =
     (case outcome of
        Threw e \<Rightarrow> [Fetch u]
      | Responded r \<Rightarrow>
          if \<not> ok r then [Fetch u]
          else (case body r of
                  Inl e \<Rightarrow> [Fetch u, ReadBody]
                | Inr html \<Rightarrow> [Fetch u, ReadBody, WriteFile ''fetchedPage.html'' html]))"
  by (auto simp: fetchUrl_def fetchUrl_try_def
      split: fetch_outcome.splits sum.splits prod.splits option.splits)

lemma fetchUrlWithParams_events:
  "set (snd (fetchUrlWithParams P outcome fp)) \<subseteq> {Fetch (href (fp_url fp)), ReadBody}"
  by (auto simp: fetchUrlWithParams_def Let_def split: fetch_outcome.splits sum.splits if_splits)

lemma processResponse_events:
  "set (snd (processResponse_uf P r rt u)) \<subseteq> {ReadBody}"
  "set (snd (processResponse_p1 P r rt u)) \<subseteq> {ReadBody}"
  by (auto simp: processResponse_uf_def processResponse_p1_def Let_def
      split: sum.splits fetched.splits if_splits)

lemma onCatch_events: "set (snd (onCatch p attempt e)) \<subseteq> range Sleep"
  by (auto simp: onCatch_def)

lemma attemptStep_events:
  assumes "\<And>r rt u. set (snd (proc r rt u)) \<subseteq> {ReadBody}"
  shows "set (snd (attemptStep proc outcome p attempt))
           \<subseteq> insert (Fetch (href (p_url p))) (insert ReadBody (range Sleep))"
proof (cases outcome)
  case (Threw e)
  then show ?thesis
    using onCatch_events [of p attempt e]
    by (auto simp: attemptStep_def split: prod.splits)
next
  case (Responded r)
  show ?thesis
  proof (cases "ok r")
    case False
    with Responded show ?thesis by (auto simp: attemptStep_def)
  next
    case True
    obtain res ev where pr: "proc r (p_responseType p) (p_url p) = (res, ev)"
      by (cases "proc r (p_responseType p) (p_url p)")
    with assms [of r "p_responseType p" "p_url p"] have ev: "set ev \<subseteq> {ReadBody}" by simp
    show ?thesis
    proof (cases res)
      case (Inr c)
      with Responded True pr ev show ?thesis by (auto simp: attemptStep_def)
    next
      case (Inl e)
      with Responded True pr ev onCatch_events [of p attempt e] show ?thesis
        by (auto simp: attemptStep_def split: prod.splits)
    qed
  qed
qed

lemma loop_events:
  assumes "\<And>r rt u. set (snd (proc r rt u)) \<subseteq> {ReadBody}"
  shows "set (snd (fetch_url_loop proc net p attempt))
           \<subseteq> insert (Fetch (href (p_url p))) (insert ReadBody (range Sleep))"
  using assms
proof (induction proc net p attempt rule: fetch_url_loop.induct)
  case (1 proc net p attempt)
  note proc_events = "1.prems"
  show ?case
  proof (cases "attempt < MAX_RETRIES")
    case False
    then show ?thesis by (simp add: fetch_url_loop.simps [of proc net p attempt])
  next
    case True
    obtain s ev where st: "attemptStep proc (net attempt) p attempt = (s, ev)"
      by (cases "attemptStep proc (net attempt) p attempt")
    have "set (snd (attemptStep proc (net attempt) p attempt))
        \<subseteq> insert (Fetch (href (p_url p))) (insert ReadBody (range Sleep))"
      using proc_events by (rule attemptStep_events)
    with st have ev: "set ev \<subseteq> insert (Fetch (href (p_url p))) (insert ReadBody (range Sleep))"
      by simp
    show ?thesis
    proof (cases s)
      case (Return res)
      with True st ev show ?thesis
        by (simp add: fetch_url_loop.simps [of proc net p attempt])
    next
      case Continue
      have ih: "set (snd (fetch_url_loop proc net p (attempt + 1)))
           \<subseteq> insert (Fetch (href (p_url p))) (insert ReadBody (range Sleep))"
        using True st Continue proc_events by (intro "1.IH") simp_all
      from Continue True st ev ih show ?thesis
        by (auto simp: fetch_url_loop.simps [of proc net p attempt] split: prod.splits)
    qed
  qed
qed

text \<open>
  Of the effects the lists record, the \<open>fetch_url\<close> handler of either module performs
  only requests to the given URL, body reads and backoff sleeps, and
  \<open>fetchUrlWithParams\<close> only a request and a body read: neither calls \<open>writeFileSync\<close>.
\<close>

lemma no_file_write_outside_fetchUrl:
  "set (snd (fetch_url_uf P net p))
     \<subseteq> insert (Fetch (href (p_url p))) (insert ReadBody (range Sleep))
   \<and> set (snd (fetch_url_p1 P net p))
     \<subseteq> insert (Fetch (href (p_url p))) (insert ReadBody (range Sleep))
   \<and> set (snd (fetchUrlWithParams P outcome fp)) \<subseteq> {Fetch (href (fp_url fp)), ReadBody}"
  unfolding fetch_url_uf_def fetch_url_p1_def
  using loop_events [of "processResponse_uf P" net p 0, OF processResponse_events(1)]
    loop_events [of "processResponse_p1 P" net p 0, OF processResponse_events(2)]
    fetchUrlWithParams_events [of P outcome fp]
  by simp

lemma fetchUrl_search_branch:
  assumes "ok r" and "body r = Inr html" and "writeFileSync P ''fetchedPage.html'' html = None"
  shows "fst (fetchUrl P (Responded r) u rt) =
     (if startsWith u GOOGLE_SEARCH_URL
      then (case extractGoogleResults_p1 P html rt of Inl e \<Rightarrow> Inl (rethrow e) | Inr v \<Rightarrow> Inr v)
      else Inr (case rt of
                  RMarkdown \<Rightarrow> FStr (htmlToMarkdown P html)
                | RHtml \<Rightarrow> FStr html
                | RText \<Rightarrow> FStr html
                | RJson \<Rightarrow> FContent html))"
  using assms by (simp add: fetchUrl_def fetchUrl_try_def split: sum.splits)

lemma fetchUrl_failed_write:
  assumes "ok r" and "body r = Inr html" and "writeFileSync P ''fetchedPage.html'' html = Some e"
  shows "fst (fetchUrl P (Responded r) u rt) = Inl (rethrow e)"
  using assms by (simp add: fetchUrl_def fetchUrl_try_def)

lemma fetchUrlWithParams_search_branch:
  assumes "validParams fp" and "ok r" and "body r = Inr html"
  shows "fst (fetchUrlWithParams P (Responded r) fp) =
     (if isGoogleSearch (fp_url fp)
      then (case extractGoogleResults_p1 P html
                   (case fp_responseType fp of None \<Rightarrow> RJson | Some t \<Rightarrow> t) of
              Inl e \<Rightarrow> Inl (rethrow e)
            | Inr v \<Rightarrow> Inr v)
      else Inr (if fp_responseType fp = Some RMarkdown then FStr html else FContent html))"
  using assms
  by (auto simp: fetchUrlWithParams_def Let_def validParams_def split: sum.splits option.splits)

lemma html_response: "ok r200_html" "body r200_html = Inr html_plain"
  by (simp_all add: ok_def r200_html_def resp_def)

lemma html_response_small: "\<not> tooLarge r200_html"
  by (rule tooLarge_absent) (simp add: r200_html_def resp_def)

lemma write_succeeds: "writeFileSync platform_ex path data = None"
  by (simp add: platform_ex_def)

lemma plain_page_has_no_results: "collectResults_p1 doc_plain = []"
  by code_simp

lemma howsearchworks_url:
  "origin url_howsearchworks @ pathname url_howsearchworks
     = ''https://www.google.com/search/howsearchworks/''"
  "isGoogleSearch url_howsearchworks = False"
  "startsWith (href url_howsearchworks) GOOGLE_SEARCH_URL = True"
  by (simp_all add: url_howsearchworks_def isGoogleSearch_def startsWith_def GOOGLE_SEARCH_URL_def)

lemma extract_plain_page:
  "extractGoogleResults_p1 platform_ex html_plain rt = Inr (render_p1 rt [])"
  by (simp add: extractGoogleResults_p1_def platform_ex_def plain_page_has_no_results)

text \<open>
  Claim C9 on \<open>fetchUrl\<close>. On a 2xx response \<open>fetchUrl\<close> calls
  \<open>writeFileSync('fetchedPage.html', html)\<close> before it returns, and when that write fails
  the fetch fails with it. On the same response \<open>fetchUrlWithParams\<close> and the
  \<open>fetch_url\<close> handler perform their request and the body read only.
\<close>

theorem fetchUrl_writes_fetched_page:
  "ok r200_html \<and> body r200_html = Inr html_plain
   \<and> fetchUrl platform_ex (Responded r200_html) ''https://example.com/page'' RText
     = (Inr (FStr html_plain),
        [Fetch ''https://example.com/page'', ReadBody, WriteFile ''fetchedPage.html'' html_plain])
   \<and> fetchUrl platform_full_disk (Responded r200_html) ''https://example.com/page'' RText
     = (Inl (JsError ''Error'' ''Failed to fetch URL: ENOSPC: no space left on device, write''),
        [Fetch ''https://example.com/page'', ReadBody, WriteFile ''fetchedPage.html'' html_plain])
   \<and> fetchUrlWithParams platform_ex (Responded r200_html) params_howsearchworks
     = (Inr (FStr html_plain), [Fetch ''https://www.google.com/search/howsearchworks/'', ReadBody])
   \<and> fetch_url_p1 platform_ex net_html (params_ex url_example RText)
     = (ToolOk html_plain ''text/plain''
          \<lparr>m_url = ''https://example.com/page'',
           m_contentType = Some ''text/html; charset=UTF-8'', m_contentLength = None,
           m_isGoogleSearch = False, m_responseType = RText\<rparr>,
        [Fetch ''https://example.com/page'', ReadBody])"
proof -
  have a: "fetchUrl platform_ex (Responded r200_html) ''https://example.com/page'' RText
     = (Inr (FStr html_plain),
        [Fetch ''https://example.com/page'', ReadBody, WriteFile ''fetchedPage.html'' html_plain])"
    by (simp add: fetchUrl_def fetchUrl_try_def html_response write_succeeds startsWith_def
        GOOGLE_SEARCH_URL_def)
  have b: "fetchUrl platform_full_disk (Responded r200_html) ''https://example.com/page'' RText
     = (Inl (JsError ''Error'' ''Failed to fetch URL: ENOSPC: no space left on device, write''),
        [Fetch ''https://example.com/page'', ReadBody, WriteFile ''fetchedPage.html'' html_plain])"
    by (simp add: fetchUrl_def fetchUrl_try_def html_response platform_full_disk_def rethrow_def
        newError_def)
  have c: "fetchUrlWithParams platform_ex (Responded r200_html) params_howsearchworks
     = (Inr (FStr html_plain), [Fetch ''https://www.google.com/search/howsearchworks/'', ReadBody])"
    using howsearchworks_url(2)
    by (simp add: fetchUrlWithParams_def validParams_def params_howsearchworks_def Let_def
        html_response url_howsearchworks_def)
  have pr: "processResponse_p1 platform_ex r200_html (p_responseType (params_ex url_example RText))
        (p_url (params_ex url_example RText)) = (Inr html_plain, [ReadBody])"
    using processResponse_text(2) [OF html_response_small url_example_not_search html_response(2),
        of platform_ex]
    by (simp add: params_ex_def)
  have st: "attemptStep (processResponse_p1 platform_ex) (net_html 0) (params_ex url_example RText) 0
      = (Return (ToolOk html_plain ''text/plain''
          \<lparr>m_url = ''https://example.com/page'',
           m_contentType = Some ''text/html; charset=UTF-8'', m_contentLength = None,
           m_isGoogleSearch = False, m_responseType = RText\<rparr>),
         [Fetch ''https://example.com/page'', ReadBody])"
    using attemptStep_processed [of r200_html "processResponse_p1 platform_ex"
        "params_ex url_example RText" html_plain "[ReadBody]" 0] html_response(1) pr
      url_example_not_search
    by (simp add: net_html_def params_ex_def mimeTypeOf_def url_example_def r200_html_def
        resp_def)
  have d: "fetch_url_p1 platform_ex net_html (params_ex url_example RText)
     = (ToolOk html_plain ''text/plain''
          \<lparr>m_url = ''https://example.com/page'',
           m_contentType = Some ''text/html; charset=UTF-8'', m_contentLength = None,
           m_isGoogleSearch = False, m_responseType = RText\<rparr>,
        [Fetch ''https://example.com/page'', ReadBody])"
    unfolding fetch_url_p1_def
    using loop_return [of 0 "processResponse_p1 platform_ex" net_html
        "params_ex url_example RText", OF _ st]
    by (simp add: MAX_RETRIES_def)
  from html_response a b c d show ?thesis
    by (intro conjI)
qed

lemma show_nat_23: "show_nat 23 = ''23''"
  by code_simp

lemma show_nat_0: "show_nat 0 = ''0''"
  by code_simp

lemma plain_page_queries:
  "querySelectorAll doc_plain [[HasAttr ''data-news-cluster-id'']] = []"
  "querySelectorAll doc_plain [[Class ''g'']] = []"
  "querySelectorAll doc_plain [[Tag ''div'', Class ''tF2Cxc'']] = []"
  by code_simp+

lemma console_extract_plain_page:
  "console_extractGoogleResults platform_ex html_plain
     = [''Document body length: 23'', ''Found 0 news elements'',
        ''Found 0 general result elements'',
        ''No results found with primary selectors, trying alternatives...'',
        ''Total results found: 0'']"
proof -
  have len: "innerHTMLLength platform_ex doc_plain = 23"
    by (simp add: platform_ex_def html_plain_def)
  have "console_extract platform_ex doc_plain
     = [''Document body length: 23'', ''Found 0 news elements'',
        ''Found 0 general result elements'',
        ''No results found with primary selectors, trying alternatives...'',
        ''Total results found: 0'']"
    by (simp add: console_extract_def plain_page_queries len show_nat_23 show_nat_0
        List.map_filter_def enumerate_eq_zip)
  then show ?thesis
    by (simp add: console_extractGoogleResults_def platform_ex_def)
qed

lemma google_url: "isGoogleSearch url_google"
  by (simp add: isGoogleSearch_def url_google_def GOOGLE_SEARCH_URL_def)

text \<open>
  The console output of the happy-dom module on the same page: one line of
  \<open>fetchUrl\<close> for a URL outside its search branch, and the lines of the extractor
  when \<open>fetchUrlWithParams\<close>, \<open>processResponse\<close> or the handler take the search branch.
\<close>

lemma console_output_of_fetch_paths:
  "console_fetchUrl platform_ex (Responded r200_html) ''https://example.com/page''
     = [''Saved fetched HTML (23 bytes) to fetchedPage.html'']
   \<and> console_fetchUrlWithParams platform_ex (Responded r200_html) fp_google
     = [''Document body length: 23'', ''Found 0 news elements'',
        ''Found 0 general result elements'',
        ''No results found with primary selectors, trying alternatives...'',
        ''Total results found: 0'']
   \<and> console_processResponse_p1 platform_ex r200_html url_google
     = console_fetchUrlWithParams platform_ex (Responded r200_html) fp_google
   \<and> console_fetch_url_p1 platform_ex net_html (params_google RJson)
     = console_fetchUrlWithParams platform_ex (Responded r200_html) fp_google"
proof -
  have a: "console_fetchUrl platform_ex (Responded r200_html) ''https://example.com/page''
     = [''Saved fetched HTML (23 bytes) to fetchedPage.html'']"
  proof -
    have "length html_plain = 23"
      by (simp add: html_plain_def)
    then show ?thesis
      by (simp add: console_fetchUrl_def html_response write_succeeds startsWith_def
          GOOGLE_SEARCH_URL_def show_nat_23)
  qed
  have v: "validParams fp_google"
    by (simp add: validParams_def fp_google_def)
  have b: "console_fetchUrlWithParams platform_ex (Responded r200_html) fp_google
     = console_extractGoogleResults platform_ex html_plain"
    using v google_url by (simp add: console_fetchUrlWithParams_def html_response fp_google_def)
  have c: "console_processResponse_p1 platform_ex r200_html url_google
     = console_extractGoogleResults platform_ex html_plain"
    using google_url html_response_small
    by (simp add: console_processResponse_p1_def html_response)
  have pr: "processResponse_p1 platform_ex r200_html RJson url_google = (Inr ''[]'', [ReadBody])"
    using google_url html_response_small
    by (simp add: processResponse_p1_def html_response extract_plain_page render_p1_def
        fetched_json_def JSON_stringify2_def)
  have st: "fst (attemptStep (processResponse_p1 platform_ex) (net_html 0) (params_google RJson) 0)
      = Return (ToolOk ''[]'' ''application/json''
          \<lparr>m_url = ''https://www.google.com/search?q=isabelle'',
           m_contentType = Some ''text/html; charset=UTF-8'', m_contentLength = None,
           m_isGoogleSearch = True, m_responseType = RJson\<rparr>)"
    using attemptStep_processed [of r200_html "processResponse_p1 platform_ex"
        "params_google RJson" "''[]''" "[ReadBody]" 0] html_response(1) pr google_url
    by (simp add: net_html_def params_google_def mimeTypeOf_def url_google_def r200_html_def
        resp_def)
  have d: "console_fetch_url_p1 platform_ex net_html (params_google RJson)
     = console_processResponse_p1 platform_ex r200_html url_google"
    using st
    by (simp add: console_fetch_url_p1_def MAX_RETRIES_def numeral_3_eq_3 net_html_def
        html_response params_google_def)
  from a b c d show ?thesis
    by (simp add: console_extract_plain_page)
qed


text \<open>
  Claim C7 on \<open>fetchUrl\<close>. The URL \<open>https://www.google.com/search/howsearchworks/\<close> has
  an origin and path different from the search endpoint, and \<open>processResponse\<close> and
  \<open>fetchUrlWithParams\<close>, which compare origin and path, return the page. \<open>fetchUrl\<close>
  tests \<open>url.startsWith(GOOGLE_SEARCH_URL)\<close>, takes the page for a result page and
  returns the rendering of an empty result list.
\<close>

theorem fetchUrl_matches_by_prefix:
  "origin url_howsearchworks @ pathname url_howsearchworks
     = ''https://www.google.com/search/howsearchworks/''
   \<and> GOOGLE_SEARCH_URL = ''https://www.google.com/search''
   \<and> isGoogleSearch url_howsearchworks = False
   \<and> startsWith (href url_howsearchworks) GOOGLE_SEARCH_URL = True
   \<and> fst (fetchUrl platform_ex (Responded r200_html) (href url_howsearchworks) RText)
       = Inr (FStr [])
   \<and> fst (fetchUrlWithParams platform_ex (Responded r200_html) params_howsearchworks)
       = Inr (FStr html_plain)
   \<and> fst (processResponse_p1 platform_ex r200_html RText url_howsearchworks) = Inr html_plain"
proof -
  have u: "origin url_howsearchworks @ pathname url_howsearchworks
     = ''https://www.google.com/search/howsearchworks/''"
    by (simp add: url_howsearchworks_def)
  have g: "GOOGLE_SEARCH_URL = ''https://www.google.com/search''"
    by (simp add: GOOGLE_SEARCH_URL_def)
  have ng: "isGoogleSearch url_howsearchworks = False"
    by (simp add: isGoogleSearch_def u g)
  have pre: "startsWith (href url_howsearchworks) GOOGLE_SEARCH_URL = True"
    by (simp add: startsWith_def url_howsearchworks_def g)
  have r: "ok r200_html" "body r200_html = Inr html_plain"
    by (simp_all add: ok_def r200_html_def resp_def)
  have none: "collectResults_p1 doc_plain = []"
    by code_simp
  have ex: "extractGoogleResults_p1 platform_ex html_plain RText = Inr (FStr [])"
    by (simp add: extractGoogleResults_p1_def platform_ex_def none render_p1_def)
  have a: "fst (fetchUrl platform_ex (Responded r200_html) (href url_howsearchworks) RText)
       = Inr (FStr [])"
    using fetchUrl_search_branch [OF r write_succeeds, of "href url_howsearchworks" RText]
    by (simp add: pre ex)
  have v: "validParams params_howsearchworks"
    by (simp add: validParams_def params_howsearchworks_def)
  have b: "fst (fetchUrlWithParams platform_ex (Responded r200_html) params_howsearchworks)
       = Inr (FStr html_plain)"
    using fetchUrlWithParams_search_branch [OF v r, of platform_ex] ng
    by (simp add: params_howsearchworks_def)
  have small: "\<not> tooLarge r200_html"
    by (rule tooLarge_absent) (simp add: r200_html_def resp_def)
  have c: "fst (processResponse_p1 platform_ex r200_html RText url_howsearchworks) = Inr html_plain"
    using processResponse_text(2) [OF small _ r(2), of url_howsearchworks platform_ex] ng
    by simp
  from u g ng pre a b c show ?thesis
    by simp
qed

text \<open>
  Outside the search branch, \<open>fetchUrl\<close> looks at no header. Its result and effects do
  not depend on the \<open>content-type\<close> and \<open>content-length\<close> headers, for any URL and format.
  For a 2xx response with body \<open>b\<close>, a write that succeeds and a URL that does not start
  with the search endpoint, the format \<open>json\<close> returns the array \<open>[{content: b}]\<close>, and
  \<open>html\<close> and \<open>text\<close> return \<open>b\<close>.
\<close>

lemma fetchUrl_outside_search_branch:
  "fetchUrl P (Responded (r\<lparr>contentTypeHeader := ct, contentLengthHeader := cl\<rparr>)) u rt
     = fetchUrl P (Responded r) u rt
   \<and> (ok r \<and> body r = Inr b \<and> writeFileSync P ''fetchedPage.html'' b = None
        \<and> \<not> startsWith u GOOGLE_SEARCH_URL \<longrightarrow>
        fst (fetchUrl P (Responded r) u RJson) = Inr (FContent b)
        \<and> fetched_json (FContent b) = JArr [JObj [(''content'', JStr b)]]
        \<and> fst (fetchUrl P (Responded r) u RHtml) = Inr (FStr b)
        \<and> fst (fetchUrl P (Responded r) u RText) = Inr (FStr b))"
proof (intro conjI impI)
  show "fetchUrl P (Responded (r\<lparr>contentTypeHeader := ct, contentLengthHeader := cl\<rparr>)) u rt
     = fetchUrl P (Responded r) u rt"
    by (simp add: fetchUrl_def fetchUrl_try_def ok_def)
next
  assume a: "ok r \<and> body r = Inr b \<and> writeFileSync P ''fetchedPage.html'' b = None
        \<and> \<not> startsWith u GOOGLE_SEARCH_URL"
  then show "fst (fetchUrl P (Responded r) u RJson) = Inr (FContent b)"
    using fetchUrl_search_branch [of r b P u RJson] by simp
  from a show "fst (fetchUrl P (Responded r) u RHtml) = Inr (FStr b)"
    using fetchUrl_search_branch [of r b P u RHtml] by simp
  from a show "fst (fetchUrl P (Responded r) u RText) = Inr (FStr b)"
    using fetchUrl_search_branch [of r b P u RText] by simp
  show "fetched_json (FContent b) = JArr [JObj [(''content'', JStr b)]]"
    by (simp add: fetched_json_def)
qed

text \<open>
  Claim C10 on a URL that is not the search endpoint.
  \<open>https://www.google.com/search/howsearchworks/\<close> differs from the endpoint in origin
  and path, so \<open>json\<close> should wrap the body and \<open>html\<close> and \<open>text\<close> should return it, as
  \<open>fetchUrlWithParams\<close> does. \<open>fetchUrl\<close> takes its search branch on the prefix and
  returns the extractor's empty result for all three formats.
\<close>

theorem fetchUrl_extracts_from_other_page:
  "isGoogleSearch url_howsearchworks = False
   \<and> ok r200_html \<and> body r200_html = Inr html_plain
   \<and> fst (fetchUrl platform_ex (Responded r200_html) (href url_howsearchworks) RJson)
       = Inr (FResults [])
   \<and> fst (fetchUrl platform_ex (Responded r200_html) (href url_howsearchworks) RHtml)
       = Inr (FStr [])
   \<and> fst (fetchUrl platform_ex (Responded r200_html) (href url_howsearchworks) RText)
       = Inr (FStr [])
   \<and> fst (fetchUrlWithParams platform_ex (Responded r200_html) fp_howsearchworks_json)
       = Inr (FContent html_plain)
   \<and> fst (fetchUrl platform_ex (Responded r200_html) ''https://example.com/page'' RJson)
       = Inr (FContent html_plain)"
proof -
  note branch = fetchUrl_search_branch [OF html_response write_succeeds,
      of "href url_howsearchworks"]
  have j: "fst (fetchUrl platform_ex (Responded r200_html) (href url_howsearchworks) RJson)
       = Inr (FResults [])"
    using branch [of RJson] by (simp add: howsearchworks_url extract_plain_page render_p1_def)
  have h: "fst (fetchUrl platform_ex (Responded r200_html) (href url_howsearchworks) RHtml)
       = Inr (FStr [])"
    using branch [of RHtml] by (simp add: howsearchworks_url extract_plain_page render_p1_def)
  have t: "fst (fetchUrl platform_ex (Responded r200_html) (href url_howsearchworks) RText)
       = Inr (FStr [])"
    using branch [of RText] by (simp add: howsearchworks_url extract_plain_page render_p1_def)
  have v: "validParams fp_howsearchworks_json"
    by (simp add: validParams_def fp_howsearchworks_json_def)
  have s: "fst (fetchUrlWithParams platform_ex (Responded r200_html) fp_howsearchworks_json)
       = Inr (FContent html_plain)"
    using fetchUrlWithParams_search_branch [OF v html_response, of platform_ex]
      howsearchworks_url(2)
    by (simp add: fp_howsearchworks_json_def)
  have e: "fst (fetchUrl platform_ex (Responded r200_html) ''https://example.com/page'' RJson)
       = Inr (FContent html_plain)"
    using fetchUrl_search_branch [OF html_response write_succeeds, of "''https://example.com/page''"
        RJson]
    by (simp add: startsWith_def GOOGLE_SEARCH_URL_def)
  from howsearchworks_url(2) html_response j h t s e show ?thesis
    by (intro conjI)
qed

section \<open>Properties of the deep search\<close>















lemma search_url_has_prefix: "startsWith (buildGoogleSearchUrl query n tp) GOOGLE_SEARCH_URL"
  by (simp add: startsWith_def buildGoogleSearchUrl_def GOOGLE_SEARCH_URL_def)

text \<open>
  The result page is always requested on the search branch, so the handler passes an
  array of results to \<open>extractSearchUrls\<close> and never a string or a wrapped body.
\<close>

lemma search_page_shape:
  assumes "fst (fetchUrl P outcome (buildGoogleSearchUrl query n tp) RJson) = Inr sr"
  shows "\<exists>rs. sr = FResults rs"
  using assms search_url_has_prefix [of query n tp]
  by (auto simp: fetchUrl_def fetchUrl_try_def extractGoogleResults_p1_def render_p1_def
      split: fetch_outcome.splits sum.splits if_splits option.splits)





end
